theory Spec2Isabelle
  imports Main
begin

section \<open>Python values and dictionaries\<close>

text \<open>
  The manifest and the workout payload are plain Python dictionaries of JSON-like values.
  A dictionary is an association list in insertion order, as Python keeps it; keys are
  looked up from the front.

  A float that \<open>json.loads\<close> returns is a double: \<open>Finite m e\<close> is the double whose exact
  value is \<open>m * 2^e\<close>, \<open>Infinity negative\<close> and \<open>NaN\<close> are the values the decoder gives for
  the texts \<open>Infinity\<close>, \<open>-Infinity\<close> and \<open>NaN\<close>.
\<close>

datatype json_float =
    Finite int int
  | Infinity bool
  | NaN

datatype pyval =
    PNone
  | PBool bool
  | PInt int
  | PFloat json_float
  | PStr string
  | PList "pyval list"
  | PDict "(string \<times> pyval) list"

type_synonym 'v dict = "(string \<times> 'v) list"

text \<open>Python truth value of an object, as \<open>bool(x)\<close> and \<open>not x\<close> compute it.\<close>

fun truthy :: "pyval \<Rightarrow> bool" where
  "truthy PNone = False"
| "truthy (PBool b) = b"
| "truthy (PInt i) = (i \<noteq> 0)"
| "truthy (PFloat x) = (case x of Finite m e \<Rightarrow> m \<noteq> 0 | _ \<Rightarrow> True)"
| "truthy (PStr s) = (s \<noteq> [])"
| "truthy (PList xs) = (xs \<noteq> [])"
| "truthy (PDict kvs) = (kvs \<noteq> [])"

text \<open>
  The exceptions that the modelled code raises or lets through, with the message or the
  name that matters.
\<close>

datatype error =
    KeyError string
  | AttributeError string
  | OverflowError
  | RecursionError
  | ValueError string
  | UnicodeDecodeError
  | OSError string
  | FileNotFoundError string
  | FFmpegError string

text \<open>\<open>d.get(k)\<close> on a dictionary whose values are objects: \<open>None\<close> when the key is missing.\<close>

definition dict_get :: "pyval dict \<Rightarrow> string \<Rightarrow> pyval" where
  "dict_get d k = (case map_of d k of None \<Rightarrow> PNone | Some v \<Rightarrow> v)"

text \<open>\<open>d[k] = v\<close>: an existing key keeps its position, a new key goes to the end.\<close>

fun dict_set :: "'v dict \<Rightarrow> string \<Rightarrow> 'v \<Rightarrow> 'v dict" where
  "dict_set [] k v = [(k, v)]"
| "dict_set ((k', v') # d) k v =
     (if k' = k then (k, v) # d else (k', v') # dict_set d k v)"

text \<open>\<open>d.update(other)\<close>: the keys of \<open>other\<close> are stored one after the other.\<close>

fun dict_update :: "'v dict \<Rightarrow> 'v dict \<Rightarrow> 'v dict" where
  "dict_update d [] = d"
| "dict_update d ((k, v) # other) = dict_update (dict_set d k v) other"

text \<open>
  \<open>d.setdefault(k, v)\<close>: stores \<open>v\<close> only when \<open>k\<close> is missing; returns the dictionary
  and the value now stored under \<open>k\<close>.
\<close>

definition dict_setdefault :: "'v dict \<Rightarrow> string \<Rightarrow> 'v \<Rightarrow> 'v dict \<times> 'v" where
  "dict_setdefault d k v =
     (case map_of d k of
        Some x \<Rightarrow> (d, x)
      | None \<Rightarrow> (d @ [(k, v)], v))"

text \<open>
  A Python float that came from an integer, kept as that integer: \<open>Float n\<close> is the
  double nearest to \<open>n\<close>.
\<close>

datatype pyfloat = Float int

text \<open>An optional string (\<open>str | None\<close>) as a Python object.\<close>

fun opt_str :: "string option \<Rightarrow> pyval" where
  "opt_str None = PNone"
| "opt_str (Some s) = PStr s"

section \<open>Activity manifest (activity\_sync.py)\<close>

text \<open>
  \<open>ActivityManifest\<close> holds \<open>_payload : dict[str, dict]\<close>, one record dictionary per
  relative path, and writes it through to its JSON file on every mutation. The model
  of the methods keeps the object's payload, of the declared type, together with the
  text of the file at \<open>self.path\<close> (\<open>None\<close> while the file does not exist). The JSON
  encoder is the standard library's and is a parameter.
\<close>

type_synonym payload_dict = "pyval dict dict"

record ActivityManifest =
  payload :: payload_dict
  file_text :: "string option"

subsection \<open>The constructor\<close>

text \<open>
  \<open>_load\<close> reads the file and stores whatever \<open>json.loads\<close> returns, of whatever shape;
  only \<open>json.JSONDecodeError\<close> is caught. What the file system and the decoder answer
  are inputs:

    \<^item> the file at \<open>self.path\<close> does not exist, or \<open>read_text()\<close> raises (\<open>OSError\<close>,
      \<open>UnicodeDecodeError\<close>), or it returns the text;
    \<^item> \<open>json.loads\<close> returns an object, or raises \<open>JSONDecodeError\<close>, or raises something
      else (\<open>RecursionError\<close> on deep nesting, \<open>ValueError\<close> on an over-long integer).

  \<open>load\<close> and \<open>init\<close> give the object stored in \<open>_payload\<close>, or the exception that leaves
  the call.
\<close>

datatype file_state =
    NoFile
  | ReadFails error
  | FileText string

datatype decoded =
    Decoded pyval
  | JSONDecodeError
  | DecoderRaises error

definition load :: "(string \<Rightarrow> decoded) \<Rightarrow> file_state \<Rightarrow> pyval \<Rightarrow> error + pyval" where
  "load loads f current =
     (case f of
        NoFile \<Rightarrow> Inr current
      | ReadFails e \<Rightarrow> Inl e
      | FileText text \<Rightarrow>
          (case loads text of
             Decoded doc \<Rightarrow> Inr doc
           | JSONDecodeError \<Rightarrow> Inr (PDict [])
           | DecoderRaises e \<Rightarrow> Inl e))"

text \<open>The constructor: an empty payload, then \<open>_load\<close>.\<close>

definition init :: "(string \<Rightarrow> decoded) \<Rightarrow> file_state \<Rightarrow> error + pyval" where
  "init loads f = load loads f (PDict [])"

text \<open>
  \<open>is_uploaded\<close> on an object whose \<open>_payload\<close> is an arbitrary object, as the constructor
  may leave it: \<open>.get\<close> exists on dictionaries only, every other object raises
  \<open>AttributeError\<close>.
\<close>

definition is_uploaded_object :: "pyval \<Rightarrow> string \<Rightarrow> string \<Rightarrow> error + bool \<times> pyval" where
  "is_uploaded_object stored relative_path sha256 =
     (case stored of
        PDict d \<Rightarrow>
          (let record = dict_get d relative_path
           in if \<not> truthy record then Inr (False, PNone)
              else (case record of
                      PDict r \<Rightarrow>
                        if dict_get r ''sha256'' \<noteq> PStr sha256 then Inr (False, PNone)
                        else Inr (truthy (dict_get r ''uploaded''), dict_get r ''upload_id'')
                    | _ \<Rightarrow> Inl (AttributeError ''get'')))
      | _ \<Rightarrow> Inl (AttributeError ''get''))"

text \<open>A payload of the declared type as the Python object it is.\<close>

definition document :: "payload_dict \<Rightarrow> pyval" where
  "document d = PDict (map (\<lambda>(k, r). (k, PDict r)) d)"

subsection \<open>The methods\<close>

definition save :: "(payload_dict \<Rightarrow> string) \<Rightarrow> ActivityManifest \<Rightarrow> ActivityManifest" where
  "save dumps m = m\<lparr>file_text := Some (dumps (payload m))\<rparr>"

text \<open>
  \<open>mark_uploaded\<close>: \<open>setdefault\<close> returns the record stored for the path (a fresh empty
  one for a new path), \<open>update\<close> mutates that very record in place, so the payload holds
  the updated record at the path's position. \<open>now\<close> is the text of
  \<open>datetime.utcnow().isoformat(timespec="seconds")\<close> read during the call.
\<close>

definition mark_uploaded ::
  "(payload_dict \<Rightarrow> string) \<Rightarrow> string \<Rightarrow> string \<Rightarrow> string \<Rightarrow> string option \<Rightarrow>
   ActivityManifest \<Rightarrow> ActivityManifest" where
  "mark_uploaded dumps now relative_path sha256 upload_id m =
     (let (p, record) = dict_setdefault (payload m) relative_path [];
          record' = dict_update record
             [(''sha256'', PStr sha256),
              (''uploaded'', PBool True),
              (''upload_id'', opt_str upload_id),
              (''last_uploaded'', PStr now)]
      in save dumps (m\<lparr>payload := dict_set p relative_path record'\<rparr>))"

definition mark_copied ::
  "(payload_dict \<Rightarrow> string) \<Rightarrow> string \<Rightarrow> string \<Rightarrow> ActivityManifest \<Rightarrow> ActivityManifest" where
  "mark_copied dumps relative_path sha256 m =
     (let (p, record) = dict_setdefault (payload m) relative_path [];
          (record', _) = dict_setdefault record ''sha256'' (PStr sha256)
      in save dumps (m\<lparr>payload := dict_set p relative_path record'\<rparr>))"

definition is_uploaded :: "ActivityManifest \<Rightarrow> string \<Rightarrow> string \<Rightarrow> bool \<times> pyval" where
  "is_uploaded m relative_path sha256 =
     (case map_of (payload m) relative_path of
        None \<Rightarrow> (False, PNone)
      | Some record \<Rightarrow>
          if record = [] then (False, PNone)
          else if dict_get record ''sha256'' \<noteq> PStr sha256 then (False, PNone)
          else (truthy (dict_get record ''uploaded''), dict_get record ''upload_id''))"

text \<open>
  \<open>ActivityEntry\<close>, one scanned activity file. The recording time comes from the FIT
  reader and is kept abstract.
\<close>

typedecl datetime

record ActivityEntry =
  path :: string
  relative_path :: string
  recorded_time :: "datetime option"
  sport :: "string option"
  duration_seconds :: "pyfloat option"
  size_bytes :: int
  sha256 :: string
  uploaded :: bool
  upload_id :: "string option"
  source :: string




section \<open>Workout templates and payloads (workout\_manager.py)\<close>

definition SPORT_TYPES :: "pyval dict dict" where
  "SPORT_TYPES =
     [(''running'', [(''sportTypeId'', PInt 1), (''sportTypeKey'', PStr ''running''), (''displayOrder'', PInt 1)]),
      (''cycling'', [(''sportTypeId'', PInt 2), (''sportTypeKey'', PStr ''cycling''), (''displayOrder'', PInt 2)]),
      (''other'', [(''sportTypeId'', PInt 9), (''sportTypeKey'', PStr ''other''), (''displayOrder'', PInt 9)])]"

definition STEP_TYPES :: "pyval dict dict" where
  "STEP_TYPES =
     [(''warmup'', [(''stepTypeId'', PInt 1), (''stepTypeKey'', PStr ''warmup''), (''displayOrder'', PInt 1)]),
      (''cooldown'', [(''stepTypeId'', PInt 2), (''stepTypeKey'', PStr ''cooldown''), (''displayOrder'', PInt 2)]),
      (''interval'', [(''stepTypeId'', PInt 3), (''stepTypeKey'', PStr ''interval''), (''displayOrder'', PInt 3)]),
      (''recovery'', [(''stepTypeId'', PInt 4), (''stepTypeKey'', PStr ''recovery''), (''displayOrder'', PInt 4)]),
      (''repeat'', [(''stepTypeId'', PInt 6), (''stepTypeKey'', PStr ''repeat''), (''displayOrder'', PInt 6)])]"

definition TARGET_NONE :: "pyval dict" where
  "TARGET_NONE =
     [(''workoutTargetTypeId'', PInt 1), (''workoutTargetTypeKey'', PStr ''no.target''), (''displayOrder'', PInt 1)]"

definition TIME_CONDITION :: "pyval dict" where
  "TIME_CONDITION =
     [(''conditionTypeId'', PInt 2), (''conditionTypeKey'', PStr ''time''), (''displayOrder'', PInt 2),
      (''displayable'', PBool True)]"

definition ITERATION_CONDITION :: "pyval dict" where
  "ITERATION_CONDITION =
     [(''conditionTypeId'', PInt 7), (''conditionTypeKey'', PStr ''iterations''), (''displayOrder'', PInt 7),
      (''displayable'', PBool False)]"

record WorkoutTemplate =
  name :: string
  sport :: string
  warmup_seconds :: int
  interval_seconds :: int
  recovery_seconds :: int
  repeats :: int
  cooldown_seconds :: int

definition estimated_duration :: "WorkoutTemplate \<Rightarrow> int" where
  "estimated_duration t =
     (let total = 0;
          total = total + max 0 (warmup_seconds t);
          total = total + max 0 (cooldown_seconds t);
          total = total + (max 0 (interval_seconds t) + max 0 (recovery_seconds t)) * max 0 (repeats t)
      in total)"

text \<open>
  \<open>float(n)\<close> of a Python integer raises \<open>OverflowError\<close> when the integer rounds
  beyond the largest finite double, that is from \<open>2^1024 - 2^970\<close> on in magnitude.
\<close>

definition FLOAT_LIMIT :: int where
  "FLOAT_LIMIT = 2 ^ 1024 - 2 ^ 970"

definition py_float :: "int \<Rightarrow> error + pyfloat" where
  "py_float n = (if \<bar>n\<bar> < FLOAT_LIMIT then Inr (Float n) else Inl OverflowError)"

text \<open>
  The step dictionaries, by their \<open>"type"\<close> key. The descriptor dictionaries they carry
  are the module constants above.
\<close>

datatype step =
    ExecutableStepDTO
      (stepOrder: int) (stepType: "pyval dict") (endCondition: "pyval dict")
      (endConditionValue: pyfloat) (targetType: "pyval dict")
      (strokeType: "pyval dict") (equipmentType: "pyval dict")
  | RepeatGroupDTO
      (stepOrder: int) (stepType: "pyval dict") (numberOfIterations: int)
      (workoutSteps: "step list") (endConditionValue: pyfloat)
      (endCondition: "pyval dict") (smartRepeat: bool)

record segment =
  segmentOrder :: int
  sportType :: "pyval dict"
  workoutSteps :: "step list"

record workout_payload =
  workoutName :: string
  sportType :: "pyval dict"
  estimatedDurationInSecs :: int
  workoutSegments :: "segment list"

definition executable_step :: "int \<Rightarrow> string \<Rightarrow> int \<Rightarrow> error + step" where
  "executable_step order step_type_key seconds =
     (case map_of STEP_TYPES step_type_key of
        None \<Rightarrow> Inl (KeyError step_type_key)
      | Some step_type \<Rightarrow>
          (case py_float seconds of
             Inl e \<Rightarrow> Inl e
           | Inr v \<Rightarrow>
               Inr (ExecutableStepDTO order step_type TIME_CONDITION v TARGET_NONE
                      [(''strokeTypeId'', PInt 0), (''displayOrder'', PInt 0)]
                      [(''equipmentTypeId'', PInt 0), (''displayOrder'', PInt 0)])))"

definition build_repeat_block :: "int \<Rightarrow> WorkoutTemplate \<Rightarrow> error + step \<times> int" where
  "build_repeat_block order t =
     (case executable_step (order + 1) ''interval'' (interval_seconds t) of
        Inl e \<Rightarrow> Inl e
      | Inr interval_step \<Rightarrow>
     (case executable_step (order + 2) ''recovery'' (recovery_seconds t) of
        Inl e \<Rightarrow> Inl e
      | Inr recovery_step \<Rightarrow>
     (case map_of STEP_TYPES ''repeat'' of
        None \<Rightarrow> Inl (KeyError ''repeat'')
      | Some repeat_type \<Rightarrow>
     (case py_float (repeats t) of
        Inl e \<Rightarrow> Inl e
      | Inr iterations \<Rightarrow>
          Inr (RepeatGroupDTO order repeat_type (repeats t) [interval_step, recovery_step]
                 iterations ITERATION_CONDITION False,
               order + 2)))))"

definition build_payload :: "WorkoutTemplate \<Rightarrow> error + workout_payload" where
  "build_payload t =
     (case map_of SPORT_TYPES ''running'' of
        None \<Rightarrow> Inl (KeyError ''running'')
      | Some running \<Rightarrow>
     (let sport = (case map_of SPORT_TYPES (WorkoutTemplate.sport t) of None \<Rightarrow> running | Some s \<Rightarrow> s);
          steps = [];
          order = 1
      in
     (case (if warmup_seconds t > 0
            then (case executable_step order ''warmup'' (warmup_seconds t) of
                    Inl e \<Rightarrow> Inl e
                  | Inr warmup \<Rightarrow> Inr (steps @ [warmup], order + 1))
            else Inr (steps, order)) of
        Inl e \<Rightarrow> Inl e
      | Inr (steps, order) \<Rightarrow>
     (case (if repeats t > 0 \<and> interval_seconds t > 0
            then (case build_repeat_block order t of
                    Inl e \<Rightarrow> Inl e
                  | Inr (repeat_block, order') \<Rightarrow> Inr (steps @ [repeat_block], order'))
            else Inr (steps, order)) of
        Inl e \<Rightarrow> Inl e
      | Inr (steps, order) \<Rightarrow>
     (case (if cooldown_seconds t > 0
            then (case executable_step order ''cooldown'' (cooldown_seconds t) of
                    Inl e \<Rightarrow> Inl e
                  | Inr cooldown \<Rightarrow> Inr (steps @ [cooldown]))
            else Inr steps) of
        Inl e \<Rightarrow> Inl e
      | Inr steps \<Rightarrow>
          Inr \<lparr>workoutName = name t,
               sportType = sport,
               estimatedDurationInSecs = estimated_duration t,
               workoutSegments =
                 [\<lparr>segmentOrder = 1, sportType = sport, workoutSteps = steps\<rparr>]\<rparr>)))))"

text \<open>The order indices a step carries: its own, then those of its child steps.\<close>

fun step_orders :: "step \<Rightarrow> int list" where
  "step_orders (ExecutableStepDTO n _ _ _ _ _ _) = [n]"
| "step_orders (RepeatGroupDTO n _ _ children _ _ _) = n # concat (map step_orders children)"

definition payload_step_orders :: "workout_payload \<Rightarrow> int list" where
  "payload_step_orders p = concat (map step_orders (concat (map segment.workoutSteps (workoutSegments p))))"

subsection \<open>File names\<close>

text \<open>
  Python strings over the code points below 256, which is what a \<open>char\<close> holds.
  \<open>isalnum\<close> and \<open>isspace\<close> are \<open>str.isalnum\<close> and \<open>str.isspace\<close> on these code points:
  besides the ASCII letters and digits, the letters and numeric characters of Latin-1
  are alphanumeric, and the separators 28 to 31, the next-line character 133 and the
  no-break space 160 are white space.
\<close>

definition isalnum :: "char \<Rightarrow> bool" where
  "isalnum ch =
     (let n = (of_char ch :: nat)
      in (48 \<le> n \<and> n \<le> 57) \<or> (65 \<le> n \<and> n \<le> 90) \<or> (97 \<le> n \<and> n \<le> 122)
         \<or> n = 170 \<or> n = 178 \<or> n = 179 \<or> n = 181 \<or> n = 185 \<or> n = 186
         \<or> n = 188 \<or> n = 189 \<or> n = 190
         \<or> (192 \<le> n \<and> n \<le> 214) \<or> (216 \<le> n \<and> n \<le> 246) \<or> 248 \<le> n)"

definition isspace :: "char \<Rightarrow> bool" where
  "isspace ch =
     (let n = (of_char ch :: nat)
      in (9 \<le> n \<and> n \<le> 13) \<or> (28 \<le> n \<and> n \<le> 32) \<or> n = 133 \<or> n = 160)"

text \<open>\<open>s.strip()\<close>: white space is removed from both ends.\<close>

definition strip :: "string \<Rightarrow> string" where
  "strip s = rev (dropWhile isspace (rev (dropWhile isspace s)))"

definition sanitize_filename :: "string \<Rightarrow> string" where
  "sanitize_filename nm =
     (let safe = map (\<lambda>ch. if isalnum ch \<or> ch = CHR ''-'' \<or> ch = CHR ''_'' then ch else CHR ''_'')
                     (strip nm)
      in if safe = [] then ''workout'' else safe)"

section \<open>Copying a music library to the watch (sync\_service.py, conversion.py)\<close>

text \<open>
  Paths are POSIX path texts. The functions below are \<open>pathlib\<close>'s \<open>/\<close>, \<open>name\<close>,
  \<open>parent\<close>, \<open>suffix\<close> and \<open>stem\<close> on such texts; \<open>lower\<close> is \<open>str.lower\<close> on the code
  points below 256.
\<close>

definition joinpath :: "string \<Rightarrow> string \<Rightarrow> string" where
  "joinpath d n = d @ ''/'' @ n"

definition path_name :: "string \<Rightarrow> string" where
  "path_name p = rev (takeWhile (\<lambda>c. c \<noteq> CHR ''/'') (rev p))"

definition path_parent :: "string \<Rightarrow> string" where
  "path_parent p =
     (if CHR ''/'' \<notin> set p then ''.''
      else let d = rev (drop 1 (dropWhile (\<lambda>c. c \<noteq> CHR ''/'') (rev p)))
           in if d = [] then ''/'' else d)"

definition dot_index :: "string \<Rightarrow> nat option" where
  "dot_index nm =
     (if CHR ''.'' \<notin> set nm then None
      else let i = length nm - length (takeWhile (\<lambda>c. c \<noteq> CHR ''.'') (rev nm)) - 1
           in if 0 < i \<and> i < length nm - 1 then Some i else None)"

definition suffix :: "string \<Rightarrow> string" where
  "suffix p = (let nm = path_name p in case dot_index nm of None \<Rightarrow> [] | Some i \<Rightarrow> drop i nm)"

definition stem :: "string \<Rightarrow> string" where
  "stem p = (let nm = path_name p in case dot_index nm of None \<Rightarrow> nm | Some i \<Rightarrow> take i nm)"

definition lower_char :: "char \<Rightarrow> char" where
  "lower_char ch =
     (let n = (of_char ch :: nat)
      in if (65 \<le> n \<and> n \<le> 90) \<or> (192 \<le> n \<and> n \<le> 214) \<or> (216 \<le> n \<and> n \<le> 222)
         then char_of (n + 32) else ch)"

definition lower :: "string \<Rightarrow> string" where
  "lower s = map lower_char s"

text \<open>
  What the calls do to the outside world is recorded as a trace of events, in order:
  the lines handed to the \<open>log\<close> callback, the \<open>gio\<close> and \<open>ffmpeg\<close> commands run, local
  directory creation and the removal of a temporary file and its directory. The results
  of the commands are inputs. The model takes it that the commands can be started
  (\<open>gio\<close> is installed), that the \<open>log\<close> callback returns, and that the local file
  operations (\<open>mkdir\<close>, \<open>mkdtemp\<close>, listing the source directory) succeed.
\<close>

datatype event =
    Log string
  | GioMakeDirectory string
  | Mkdir string
  | GioCopy string string bool
  | GioRemove string
  | Ffmpeg string string
  | Unlink string
  | Rmdir string

record GioCommandResult =
  stdout :: string
  stderr :: string
  returncode :: int

definition ok :: "GioCommandResult \<Rightarrow> bool" where
  "ok result = (returncode result = 0)"

text \<open>
  What the converter does for one file: \<open>ffmpeg\<close> is not installed, or it runs with a
  fresh temporary directory and ends with a return code and an error text.
\<close>

datatype ffmpeg_outcome =
    NotInstalled
  | Ran string int string

record file_outcome =
  ffmpeg :: ffmpeg_outcome
  copy_result :: GioCommandResult

text \<open>\<open>_log\<close>: a line goes out only when a callback was given.\<close>

definition log_line :: "bool \<Rightarrow> string \<Rightarrow> event list" where
  "log_line log message = (if log then [Log message] else [])"

text \<open>\<open>ensure_directory(path, log=None)\<close>: the command runs and its result is dropped.\<close>

definition ensure_directory :: "string \<Rightarrow> event list" where
  "ensure_directory p = [GioMakeDirectory p]"

definition ensure_destination_parent :: "string \<Rightarrow> string \<Rightarrow> event list" where
  "ensure_destination_parent gvfs_base dest =
     (let dest_parent = path_parent dest
      in if take (length gvfs_base) dest_parent = gvfs_base
         then ensure_directory dest_parent
         else [Mkdir dest_parent])"

text \<open>
  \<open>_gio_copy_with_log\<close>: \<open>gio_copy\<close> runs the command with \<open>check=False\<close>, so a failed
  copy comes back as a result; it is logged and nothing is raised.
\<close>

definition gio_copy_with_log ::
  "string \<Rightarrow> string \<Rightarrow> string \<Rightarrow> bool \<Rightarrow> bool \<Rightarrow> GioCommandResult \<Rightarrow> event list" where
  "gio_copy_with_log gvfs_base src dest recursive log result =
     ensure_destination_parent gvfs_base dest
     @ [GioCopy src dest recursive]
     @ (if log
        then (if ok result
              then [Log (''Copied '' @ path_name src @ '' -> '' @ dest)]
              else [Log (''Failed to copy '' @ src @ '' -> '' @ dest @ '': '' @ stderr result)])
        else [])"

definition convert_file_to_mp3 ::
  "string \<Rightarrow> bool \<Rightarrow> ffmpeg_outcome \<Rightarrow> event list \<times> (error + string)" where
  "convert_file_to_mp3 src log outcome =
     (case outcome of
        NotInstalled \<Rightarrow>
          ([], Inl (FFmpegError ''ffmpeg command not found. Install ffmpeg to enable conversion''))
      | Ran tmp_dir rc err \<Rightarrow>
          (let dest = joinpath tmp_dir (stem src @ ''.mp3'');
               events = log_line log (''Converting '' @ path_name src @ '' to MP3 via ffmpeg'')
                        @ [Ffmpeg src dest]
           in if rc \<noteq> 0
              then (events, Inl (FFmpegError (if strip err = [] then ''ffmpeg conversion failed''
                                              else strip err)))
              else (events, Inr dest)))"

text \<open>
  \<open>_copy_local_file_to_watch\<close> with the body of the \<open>maybe_convert_to_mp3\<close> context
  manager: a converted file and its temporary directory are removed again once the copy
  has been attempted.
\<close>

definition copy_local_file_to_watch ::
  "string \<Rightarrow> string \<Rightarrow> string \<Rightarrow> bool \<Rightarrow> bool \<Rightarrow> file_outcome \<Rightarrow> event list \<times> error option" where
  "copy_local_file_to_watch gvfs_base src dest_dir auto_convert log outcome =
     (if auto_convert \<and> lower (suffix src) \<noteq> ''.mp3''
      then (case convert_file_to_mp3 src log (ffmpeg outcome) of
              (events, Inl e) \<Rightarrow> (events, Some e)
            | (events, Inr converted) \<Rightarrow>
                (events
                 @ gio_copy_with_log gvfs_base converted (joinpath dest_dir (stem src @ ''.mp3''))
                     False log (copy_result outcome)
                 @ [Unlink converted, Rmdir (path_parent converted)],
                 None))
      else (gio_copy_with_log gvfs_base src (joinpath dest_dir (path_name src))
              False log (copy_result outcome),
            None))"

text \<open>
  The \<open>for file_path in files\<close> loop of \<open>copy_library_to_watch\<close>; \<open>outcomes i\<close> is what
  the converter and the copy command do for the \<open>i\<close>-th file. An exception ends the loop.
\<close>

fun copy_files ::
  "string \<Rightarrow> string list \<Rightarrow> string \<Rightarrow> bool \<Rightarrow> bool \<Rightarrow> (nat \<Rightarrow> file_outcome) \<Rightarrow>
   event list \<times> error option" where
  "copy_files gvfs_base [] music_dir auto_convert log outcomes = ([], None)"
| "copy_files gvfs_base (file_path # files) music_dir auto_convert log outcomes =
     (case copy_local_file_to_watch gvfs_base file_path music_dir auto_convert log (outcomes 0) of
        (events, Some e) \<Rightarrow> (events, Some e)
      | (events, None) \<Rightarrow>
          (case copy_files gvfs_base files music_dir auto_convert log (\<lambda>i. outcomes (Suc i)) of
             (events', r) \<Rightarrow> (events @ events', r)))"

text \<open>
  \<open>copy_library_to_watch\<close>. \<open>src_exists\<close> is \<open>src_dir.exists()\<close>, \<open>files\<close> the sorted
  regular files directly under \<open>src_dir\<close>, \<open>music_dir\<close> the music directory of the mount.
  The result is the trace and the exception raised, if any.
\<close>

definition copy_library_to_watch ::
  "string \<Rightarrow> string \<Rightarrow> bool \<Rightarrow> string list \<Rightarrow> string \<Rightarrow> bool \<Rightarrow> bool \<Rightarrow> (nat \<Rightarrow> file_outcome) \<Rightarrow>
   event list \<times> error option" where
  "copy_library_to_watch gvfs_base src_dir src_exists files music_dir auto_convert log outcomes =
     (if \<not> src_exists
      then ([], Some (FileNotFoundError (''Source directory '' @ src_dir @ '' does not exist'')))
      else let events = log_line log (''Copying files from '' @ src_dir @ '' -> '' @ music_dir)
           in if files = []
              then (events @ log_line log (''No files found in '' @ src_dir), None)
              else (case copy_files gvfs_base files music_dir auto_convert log outcomes of
                      (events', r) \<Rightarrow> (events @ ensure_directory music_dir @ events', r)))"

text \<open>
  \<open>gio_remove\<close> and \<open>wipe_directory\<close> (gio\_utils.py): each entry is removed in turn,
  a failed removal is logged and the loop goes on. \<open>results i\<close> is the result of the
  \<open>i\<close>-th removal.
\<close>

definition gio_remove :: "string \<Rightarrow> bool \<Rightarrow> GioCommandResult \<Rightarrow> event list" where
  "gio_remove p log result =
     [GioRemove p]
     @ (if log
      then (if ok result
            then [Log (''Removed '' @ p)]
            else [Log (''Failed to remove '' @ p @ '': '' @ stderr result)])
      else [])"

fun wipe_directory :: "string \<Rightarrow> string list \<Rightarrow> bool \<Rightarrow> (nat \<Rightarrow> GioCommandResult) \<Rightarrow> event list" where
  "wipe_directory p [] log results = []"
| "wipe_directory p (entry # entries) log results =
     log_line log (''Removing '' @ entry)
     @ gio_remove (joinpath p entry) log (results 0)
     @ wipe_directory p entries log (\<lambda>i. results (Suc i))"

text \<open>The copy commands and the remove commands of a trace, in order.\<close>

fun is_copy :: "event \<Rightarrow> bool" where
  "is_copy (GioCopy _ _ _) = True"
| "is_copy _ = False"

fun is_remove :: "event \<Rightarrow> bool" where
  "is_remove (GioRemove _) = True"
| "is_remove _ = False"

text \<open>
  The copy command that \<open>copy_library_to_watch\<close> issues for one file when the file's
  conversion, if any, succeeds.
\<close>

definition expected_copy :: "string \<Rightarrow> bool \<Rightarrow> string \<Rightarrow> file_outcome \<Rightarrow> event" where
  "expected_copy music_dir auto_convert src outcome =
     (if auto_convert \<and> lower (suffix src) \<noteq> ''.mp3''
      then (case ffmpeg outcome of
              Ran tmp_dir rc err \<Rightarrow>
                GioCopy (joinpath tmp_dir (stem src @ ''.mp3''))
                        (joinpath music_dir (stem src @ ''.mp3'')) False
            | NotInstalled \<Rightarrow> GioCopy src (joinpath music_dir (path_name src)) False)
      else GioCopy src (joinpath music_dir (path_name src)) False)"

text \<open>A file's conversion fails: it is due and \<open>ffmpeg\<close> is missing or ends with an error.\<close>

definition conversion_fails :: "bool \<Rightarrow> string \<Rightarrow> file_outcome \<Rightarrow> bool" where
  "conversion_fails auto_convert src outcome =
     (auto_convert \<and> lower (suffix src) \<noteq> ''.mp3'' \<and>
      (case ffmpeg outcome of NotInstalled \<Rightarrow> True | Ran tmp_dir rc err \<Rightarrow> rc \<noteq> 0))"

section \<open>Dictionary lemmas\<close>

lemma map_of_dict_set: "map_of (dict_set d k v) = (map_of d)(k \<mapsto> v)"
  by (induction d k v rule: dict_set.induct) auto

lemma map_of_setdefault_fst:
  "map_of (fst (dict_setdefault d k v)) =
     (case map_of d k of None \<Rightarrow> (map_of d)(k \<mapsto> v) | Some x \<Rightarrow> map_of d)"
  by (auto simp: dict_setdefault_def map_add_def fun_eq_iff split: option.splits)

lemma snd_setdefault:
  "snd (dict_setdefault d k v) = (case map_of d k of None \<Rightarrow> v | Some x \<Rightarrow> x)"
  by (simp add: dict_setdefault_def split: option.splits)

lemma dict_set_nonempty: "dict_set d k v \<noteq> []"
  by (cases d) (auto split: if_splits)

lemma dict_update_nonempty: "other \<noteq> [] \<Longrightarrow> dict_update d other \<noteq> []"
proof (induction d other rule: dict_update.induct)
  case (1 d)
  then show ?case by simp
next
  case (2 d k v other)
  show ?case
  proof (cases other)
    case Nil
    then show ?thesis by (simp add: dict_set_nonempty)
  next
    case (Cons a list)
    with 2 show ?thesis by simp
  qed
qed

lemma map_of_dict_update: "map_of (dict_update d other) = map_of d ++ map_of (rev other)"
proof (induction d other rule: dict_update.induct)
  case (1 d)
  then show ?case by simp
next
  case (2 d k v other)
  then show ?case
    by (simp add: map_of_dict_set map_add_def fun_eq_iff split: option.splits)
qed

text \<open>The payload after \<open>mark_uploaded\<close> and \<open>mark_copied\<close>, as a finite map.\<close>

lemma payload_mark_uploaded:
  "map_of (payload (mark_uploaded dumps now p h uid m)) =
     (map_of (payload m))(p \<mapsto>
        dict_update (case map_of (payload m) p of None \<Rightarrow> [] | Some r \<Rightarrow> r)
          [(''sha256'', PStr h), (''uploaded'', PBool True),
           (''upload_id'', opt_str uid), (''last_uploaded'', PStr now)])"
proof (cases "map_of (payload m) p")
  case None
  then show ?thesis
    by (auto simp: mark_uploaded_def save_def dict_setdefault_def map_of_dict_set Let_def
                   fun_eq_iff map_add_def split: option.splits)
next
  case (Some r)
  then show ?thesis
    by (simp add: mark_uploaded_def save_def dict_setdefault_def map_of_dict_set Let_def)
qed

lemma payload_mark_copied:
  "map_of (payload (mark_copied dumps p h m)) =
     (map_of (payload m))(p \<mapsto>
        fst (dict_setdefault (case map_of (payload m) p of None \<Rightarrow> [] | Some r \<Rightarrow> r)
               ''sha256'' (PStr h)))"
proof (cases "map_of (payload m) p")
  case None
  then show ?thesis
    by (auto simp: mark_copied_def save_def dict_setdefault_def map_of_dict_set Let_def
                   fun_eq_iff map_add_def split: option.splits)
next
  case (Some r)
  then show ?thesis
    by (simp add: mark_copied_def save_def dict_setdefault_def map_of_dict_set Let_def
             split: option.splits)
qed

lemma setdefault_keeps:
  "map_of r k = Some v \<Longrightarrow> map_of (fst (dict_setdefault r k' v')) k = Some v"
  by (cases "map_of r k'") (simp_all add: dict_setdefault_def map_add_def)

lemma setdefault_others:
  "k \<noteq> k' \<Longrightarrow> map_of (fst (dict_setdefault r k' v')) k = map_of r k"
  by (cases "map_of r k'") (simp_all add: dict_setdefault_def map_add_def split: option.splits)

lemma setdefault_fresh:
  "map_of r k' = None \<Longrightarrow> map_of (fst (dict_setdefault r k' v')) k' = Some v'"
  by (simp add: dict_setdefault_def map_add_def)

lemma setdefault_present:
  "map_of r k' = Some x \<Longrightarrow> fst (dict_setdefault r k' v') = r"
  by (simp add: dict_setdefault_def)

lemma is_uploaded_True_sha:
  "is_uploaded m p h0 = (True, u) \<Longrightarrow>
   \<exists>r. map_of (payload m) p = Some r \<and> map_of r ''sha256'' = Some (PStr h0)"
proof (cases "map_of (payload m) p")
  case None
  assume "is_uploaded m p h0 = (True, u)"
  with None show ?thesis by (simp add: is_uploaded_def)
next
  case (Some r)
  assume up: "is_uploaded m p h0 = (True, u)"
  have "dict_get r ''sha256'' = PStr h0"
  proof (rule ccontr)
    assume "dict_get r ''sha256'' \<noteq> PStr h0"
    with Some up show False by (simp add: is_uploaded_def split: if_splits)
  qed
  then have "map_of r ''sha256'' = Some (PStr h0)"
    by (cases "map_of r ''sha256''") (simp_all add: dict_get_def)
  with Some show ?thesis by simp
qed

lemma dict_get_update4:
  "dict_update r [(''sha256'', a), (''uploaded'', b), (''upload_id'', c), (''last_uploaded'', d)] = r'
   \<Longrightarrow> dict_get r' ''sha256'' = a \<and> dict_get r' ''uploaded'' = b \<and> dict_get r' ''upload_id'' = c
       \<and> dict_get r' ''last_uploaded'' = d \<and> r' \<noteq> []"
  by (auto simp: dict_get_def map_of_dict_set dict_set_nonempty)

lemma is_uploaded_after_mark:
  "is_uploaded (mark_uploaded dumps now p h uid m) p h' =
     (if h' = h then (True, opt_str uid) else (False, PNone))"
proof -
  let ?r = "dict_update (case map_of (payload m) p of None \<Rightarrow> [] | Some r \<Rightarrow> r)
          [(''sha256'', PStr h), (''uploaded'', PBool True),
           (''upload_id'', opt_str uid), (''last_uploaded'', PStr now)]"
  have stored: "map_of (payload (mark_uploaded dumps now p h uid m)) p = Some ?r"
    by (simp add: payload_mark_uploaded)
  have fields: "dict_get ?r ''sha256'' = PStr h" "dict_get ?r ''uploaded'' = PBool True"
    "dict_get ?r ''upload_id'' = opt_str uid" "?r \<noteq> []"
    using dict_get_update4 [OF refl] by blast+
  show ?thesis
    unfolding is_uploaded_def stored using fields by simp
qed

lemma is_uploaded_cong:
  "map_of (payload m') p = map_of (payload m) p \<Longrightarrow> is_uploaded m' p h = is_uploaded m p h"
  by (simp add: is_uploaded_def)

lemma mark_copied_new:
  "map_of (payload m) p = None \<Longrightarrow>
   map_of (payload (mark_copied dumps p h m)) p = Some [(''sha256'', PStr h)]"
  by (simp add: payload_mark_copied dict_setdefault_def)

lemma mark_copied_existing:
  "map_of (payload m) p = Some r \<Longrightarrow>
   map_of (payload (mark_copied dumps p h m)) p = Some (fst (dict_setdefault r ''sha256'' (PStr h)))"
  by (simp add: payload_mark_copied)

lemma mark_copied_keeps_uploaded:
  assumes "is_uploaded m p h0 = (True, u)"
  shows "is_uploaded (mark_copied dumps p h m) p h0 = (True, u)"
proof -
  from is_uploaded_True_sha [OF assms] obtain r
    where r: "map_of (payload m) p = Some r" and sha: "map_of r ''sha256'' = Some (PStr h0)"
    by blast
  have "fst (dict_setdefault r ''sha256'' (PStr h)) = r"
    using sha by (rule setdefault_present)
  with mark_copied_existing [OF r, of dumps h]
  have "map_of (payload (mark_copied dumps p h m)) p = map_of (payload m) p"
    using r by simp
  then have "is_uploaded (mark_copied dumps p h m) p h0 = is_uploaded m p h0"
    by (rule is_uploaded_cong)
  with assms show ?thesis by simp
qed

lemma mark_copied_fields:
  assumes r: "map_of (payload m) p = Some r"
  shows "\<exists>r'. map_of (payload (mark_copied dumps p h m)) p = Some r' \<and>
        (\<forall>k. k \<noteq> ''sha256'' \<longrightarrow> map_of r' k = map_of r k) \<and>
        (map_of r ''sha256'' = None \<longrightarrow> map_of r' ''sha256'' = Some (PStr h)) \<and>
        (map_of r ''sha256'' \<noteq> None \<longrightarrow> r' = r)"
proof (intro exI conjI)
  show "map_of (payload (mark_copied dumps p h m)) p = Some (fst (dict_setdefault r ''sha256'' (PStr h)))"
    using r by (rule mark_copied_existing)
  show "\<forall>k. k \<noteq> ''sha256'' \<longrightarrow> map_of (fst (dict_setdefault r ''sha256'' (PStr h))) k = map_of r k"
    using setdefault_others by fast
  show "map_of r ''sha256'' = None \<longrightarrow> map_of (fst (dict_setdefault r ''sha256'' (PStr h))) ''sha256'' = Some (PStr h)"
    using setdefault_fresh by fast
  show "map_of r ''sha256'' \<noteq> None \<longrightarrow> fst (dict_setdefault r ''sha256'' (PStr h)) = r"
    using setdefault_present by fast
qed

lemma mark_copied_saved:
  "file_text (mark_copied dumps p h m) = Some (dumps (payload (mark_copied dumps p h m)))"
  by (simp add: mark_copied_def save_def Let_def split: prod.splits)






section \<open>Workout payload lemmas\<close>

lemma small_float: "\<bar>n\<bar> < 2 ^ 32 \<Longrightarrow> \<bar>n\<bar> < FLOAT_LIMIT"
proof -
  assume n: "\<bar>n\<bar> < 2 ^ 32"
  have "(2::int) ^ 1024 = 2 ^ 970 * 2 ^ 54" by (simp flip: power_add)
  then have "FLOAT_LIMIT = 2 ^ 970 * (2 ^ 54 - 1)" by (simp add: FLOAT_LIMIT_def algebra_simps)
  moreover have "(2::int) ^ 970 * (2 ^ 54 - 1) \<ge> 2 ^ 970 * 1"
    by (rule mult_left_mono) simp_all
  moreover have "(2::int) ^ 32 \<le> 2 ^ 970" by (rule power_increasing) simp_all
  ultimately show ?thesis using n by simp
qed

lemma executable_step_eq:
  "map_of STEP_TYPES key = Some ty \<Longrightarrow>
   executable_step n key s =
     (if \<bar>s\<bar> < FLOAT_LIMIT
      then Inr (ExecutableStepDTO n ty TIME_CONDITION (Float s) TARGET_NONE
                  [(''strokeTypeId'', PInt 0), (''displayOrder'', PInt 0)]
                  [(''equipmentTypeId'', PInt 0), (''displayOrder'', PInt 0)])
      else Inl OverflowError)"
  by (simp add: executable_step_def py_float_def)

lemma STEP_TYPES_keys:
  "map_of STEP_TYPES ''warmup'' = Some [(''stepTypeId'', PInt 1), (''stepTypeKey'', PStr ''warmup''), (''displayOrder'', PInt 1)]"
  "map_of STEP_TYPES ''cooldown'' = Some [(''stepTypeId'', PInt 2), (''stepTypeKey'', PStr ''cooldown''), (''displayOrder'', PInt 2)]"
  "map_of STEP_TYPES ''interval'' = Some [(''stepTypeId'', PInt 3), (''stepTypeKey'', PStr ''interval''), (''displayOrder'', PInt 3)]"
  "map_of STEP_TYPES ''recovery'' = Some [(''stepTypeId'', PInt 4), (''stepTypeKey'', PStr ''recovery''), (''displayOrder'', PInt 4)]"
  "map_of STEP_TYPES ''repeat'' = Some [(''stepTypeId'', PInt 6), (''stepTypeKey'', PStr ''repeat''), (''displayOrder'', PInt 6)]"
  by (simp_all add: STEP_TYPES_def)

lemma SPORT_TYPES_running:
  "map_of SPORT_TYPES ''running'' = Some [(''sportTypeId'', PInt 1), (''sportTypeKey'', PStr ''running''), (''displayOrder'', PInt 1)]"
  by (simp add: SPORT_TYPES_def)

lemmas executable_step_simps =
  executable_step_eq [OF STEP_TYPES_keys(1)] executable_step_eq [OF STEP_TYPES_keys(2)]
  executable_step_eq [OF STEP_TYPES_keys(3)] executable_step_eq [OF STEP_TYPES_keys(4)]

lemma build_repeat_block_eq:
  "build_repeat_block n t =
     (if \<bar>interval_seconds t\<bar> < FLOAT_LIMIT \<and> \<bar>recovery_seconds t\<bar> < FLOAT_LIMIT \<and> \<bar>repeats t\<bar> < FLOAT_LIMIT
      then Inr (RepeatGroupDTO n [(''stepTypeId'', PInt 6), (''stepTypeKey'', PStr ''repeat''), (''displayOrder'', PInt 6)]
                  (repeats t)
                  [ExecutableStepDTO (n + 1)
                     [(''stepTypeId'', PInt 3), (''stepTypeKey'', PStr ''interval''), (''displayOrder'', PInt 3)]
                     TIME_CONDITION (Float (interval_seconds t)) TARGET_NONE
                     [(''strokeTypeId'', PInt 0), (''displayOrder'', PInt 0)]
                     [(''equipmentTypeId'', PInt 0), (''displayOrder'', PInt 0)],
                   ExecutableStepDTO (n + 2)
                     [(''stepTypeId'', PInt 4), (''stepTypeKey'', PStr ''recovery''), (''displayOrder'', PInt 4)]
                     TIME_CONDITION (Float (recovery_seconds t)) TARGET_NONE
                     [(''strokeTypeId'', PInt 0), (''displayOrder'', PInt 0)]
                     [(''equipmentTypeId'', PInt 0), (''displayOrder'', PInt 0)]]
                  (Float (repeats t)) ITERATION_CONDITION False,
                n + 2)
      else Inl OverflowError)"
  by (simp add: build_repeat_block_def executable_step_simps STEP_TYPES_keys py_float_def)

lemma build_payload_Inr:
  assumes "build_payload t = Inr p"
  shows "workoutName p = name t \<and> estimatedDurationInSecs p = estimated_duration t \<and>
     (\<exists>sp steps. workoutSegments p = [\<lparr>segmentOrder = 1, sportType = sp, workoutSteps = steps\<rparr>] \<and>
        length steps = (if warmup_seconds t > 0 then 1 else 0)
                     + (if repeats t > 0 \<and> interval_seconds t > 0 then 1 else 0)
                     + (if cooldown_seconds t > 0 then 1 else 0) \<and>
        (\<not> (repeats t > 0 \<and> interval_seconds t > 0) \<longrightarrow> (\<forall>s \<in> set steps. is_ExecutableStepDTO s)))"
  using assms
  by (auto simp: build_payload_def SPORT_TYPES_running build_repeat_block_eq executable_step_simps
                 Let_def split: if_splits)

lemma build_payload_orders:
  assumes "build_payload t = Inr p"
  shows "payload_step_orders p =
     (if warmup_seconds t > 0 then [1] else [])
     @ (if repeats t > 0 \<and> interval_seconds t > 0
        then (if warmup_seconds t > 0 then [2, 3, 4] else [1, 2, 3]) else [])
     @ (if cooldown_seconds t > 0
        then [(if warmup_seconds t > 0 then 2 else 1)
              + (if repeats t > 0 \<and> interval_seconds t > 0 then 2 else 0)]
        else [])"
  using assms
  by (auto simp: build_payload_def SPORT_TYPES_running build_repeat_block_eq executable_step_simps
                 payload_step_orders_def Let_def split: if_splits)

lemma build_payload_returns:
  "(warmup_seconds t > 0 \<longrightarrow> warmup_seconds t < FLOAT_LIMIT) \<and>
   (repeats t > 0 \<and> interval_seconds t > 0 \<longrightarrow>
      interval_seconds t < FLOAT_LIMIT \<and> \<bar>recovery_seconds t\<bar> < FLOAT_LIMIT \<and> repeats t < FLOAT_LIMIT) \<and>
   (cooldown_seconds t > 0 \<longrightarrow> cooldown_seconds t < FLOAT_LIMIT)
   \<Longrightarrow> \<exists>p. build_payload t = Inr p"
  by (auto simp: build_payload_def SPORT_TYPES_running build_repeat_block_eq executable_step_simps
                 Let_def split: if_splits)

lemma build_payload_raises:
  "\<not> ((warmup_seconds t > 0 \<longrightarrow> warmup_seconds t < FLOAT_LIMIT) \<and>
   (repeats t > 0 \<and> interval_seconds t > 0 \<longrightarrow>
      interval_seconds t < FLOAT_LIMIT \<and> \<bar>recovery_seconds t\<bar> < FLOAT_LIMIT \<and> repeats t < FLOAT_LIMIT) \<and>
   (cooldown_seconds t > 0 \<longrightarrow> cooldown_seconds t < FLOAT_LIMIT))
   \<Longrightarrow> build_payload t = Inl OverflowError"
  by (auto simp: build_payload_def SPORT_TYPES_running build_repeat_block_eq executable_step_simps
                 Let_def split: if_splits)

lemma example_payload:
  "build_payload \<lparr>name = ''Tempo'', sport = ''running'', warmup_seconds = 300, interval_seconds = 60, recovery_seconds = 60, repeats = 6, cooldown_seconds = 300\<rparr> =
     Inr \<lparr>workoutName = ''Tempo'',
        sportType = [(''sportTypeId'', PInt 1), (''sportTypeKey'', PStr ''running''), (''displayOrder'', PInt 1)],
        estimatedDurationInSecs = 1320,
        workoutSegments =
          [\<lparr>segmentOrder = 1,
            sportType = [(''sportTypeId'', PInt 1), (''sportTypeKey'', PStr ''running''), (''displayOrder'', PInt 1)],
            workoutSteps =
             [ExecutableStepDTO 1
                [(''stepTypeId'', PInt 1), (''stepTypeKey'', PStr ''warmup''), (''displayOrder'', PInt 1)]
                TIME_CONDITION (Float 300) TARGET_NONE
                [(''strokeTypeId'', PInt 0), (''displayOrder'', PInt 0)]
                [(''equipmentTypeId'', PInt 0), (''displayOrder'', PInt 0)],
              RepeatGroupDTO 2
                [(''stepTypeId'', PInt 6), (''stepTypeKey'', PStr ''repeat''), (''displayOrder'', PInt 6)]
                6
                [ExecutableStepDTO 3
                [(''stepTypeId'', PInt 3), (''stepTypeKey'', PStr ''interval''), (''displayOrder'', PInt 3)]
                TIME_CONDITION (Float 60) TARGET_NONE
                [(''strokeTypeId'', PInt 0), (''displayOrder'', PInt 0)]
                [(''equipmentTypeId'', PInt 0), (''displayOrder'', PInt 0)],
                 ExecutableStepDTO 4
                [(''stepTypeId'', PInt 4), (''stepTypeKey'', PStr ''recovery''), (''displayOrder'', PInt 4)]
                TIME_CONDITION (Float 60) TARGET_NONE
                [(''strokeTypeId'', PInt 0), (''displayOrder'', PInt 0)]
                [(''equipmentTypeId'', PInt 0), (''displayOrder'', PInt 0)]]
                (Float 6) ITERATION_CONDITION False,
              ExecutableStepDTO 4
                [(''stepTypeId'', PInt 2), (''stepTypeKey'', PStr ''cooldown''), (''displayOrder'', PInt 2)]
                TIME_CONDITION (Float 300) TARGET_NONE
                [(''strokeTypeId'', PInt 0), (''displayOrder'', PInt 0)]
                [(''equipmentTypeId'', PInt 0), (''displayOrder'', PInt 0)]]\<rparr>]\<rparr>"
  by (simp add: build_payload_def SPORT_TYPES_def build_repeat_block_eq executable_step_simps
        estimated_duration_def Let_def
        small_float [of 300, simplified] small_float [of 60, simplified] small_float [of 6, simplified])

text \<open>\<open>strip\<close> and the characters of a sanitized name.\<close>

lemma strip_Nil_iff: "strip s = [] \<longleftrightarrow> (\<forall>c\<in>set s. isspace c)"
proof
  assume "strip s = []"
  then have all: "\<forall>c\<in>set (dropWhile isspace s). isspace c"
    by (simp add: strip_def dropWhile_eq_Nil_conv)
  have "dropWhile isspace s = []"
  proof (rule ccontr)
    assume ne: "dropWhile isspace s \<noteq> []"
    then have "\<not> isspace (hd (dropWhile isspace s))" by (rule hd_dropWhile)
    moreover from ne have "hd (dropWhile isspace s) \<in> set (dropWhile isspace s)" by (rule hd_in_set)
    ultimately show False using all by blast
  qed
  then show "\<forall>c\<in>set s. isspace c" by (simp only: dropWhile_eq_Nil_conv)
next
  assume "\<forall>c\<in>set s. isspace c"
  then have "dropWhile isspace s = []" by (simp only: dropWhile_eq_Nil_conv)
  then show "strip s = []" unfolding strip_def by (simp only: rev.simps dropWhile.simps)
qed

lemma strip_decomp:
  "s = takeWhile isspace s @ strip s @ rev (takeWhile isspace (rev (dropWhile isspace s)))"
proof -
  have "takeWhile isspace (rev (dropWhile isspace s)) @ dropWhile isspace (rev (dropWhile isspace s))
          = rev (dropWhile isspace s)"
    by (rule takeWhile_dropWhile_id)
  then have "rev (takeWhile isspace (rev (dropWhile isspace s)) @ dropWhile isspace (rev (dropWhile isspace s)))
          = rev (rev (dropWhile isspace s))"
    by (rule arg_cong)
  then have d: "strip s @ rev (takeWhile isspace (rev (dropWhile isspace s))) = dropWhile isspace s"
    unfolding strip_def by (simp only: rev_append rev_rev_ident)
  have "takeWhile isspace s @ dropWhile isspace s = s" by (rule takeWhile_dropWhile_id)
  with d show ?thesis by (simp only:)
qed

lemma strip_ends:
  assumes "strip s \<noteq> []"
  shows "\<not> isspace (hd (strip s)) \<and> \<not> isspace (last (strip s))"
proof -
  let ?d = "dropWhile isspace s"
  let ?e = "dropWhile isspace (rev ?d)"
  from assms have e: "?e \<noteq> []" unfolding strip_def by (simp only: rev_is_Nil_conv not_False_eq_True)
  then have l: "\<not> isspace (hd ?e)" by (rule hd_dropWhile)
  have "last (rev ?e) = hd ?e" by (rule last_rev)
  with l have 1: "\<not> isspace (last (strip s))" unfolding strip_def by simp
  have d: "?d \<noteq> []"
  proof
    assume "?d = []"
    then have "?e = []" by (simp only: rev.simps dropWhile.simps)
    with e show False ..
  qed
  then have hd: "\<not> isspace (hd ?d)" by (rule hd_dropWhile)
  have "takeWhile isspace (rev ?d) @ ?e = rev ?d" by (rule takeWhile_dropWhile_id)
  then have "rev (takeWhile isspace (rev ?d) @ ?e) = rev (rev ?d)" by (rule arg_cong)
  then have "strip s @ rev (takeWhile isspace (rev ?d)) = ?d"
    unfolding strip_def by (simp only: rev_append rev_rev_ident)
  then have "hd ?d = hd (strip s @ rev (takeWhile isspace (rev ?d)))" by (simp only:)
  also have "\<dots> = hd (strip s)" using assms by (rule hd_append2)
  finally have "hd ?d = hd (strip s)" .
  with hd have 2: "\<not> isspace (hd (strip s))" by simp
  from 1 2 show ?thesis by simp
qed

lemma sanitize_filename_chars:
  "\<forall>c\<in>set (sanitize_filename nm). isalnum c \<or> c = CHR ''-'' \<or> c = CHR ''_''"
  by (auto simp: sanitize_filename_def Let_def isalnum_def)

section \<open>Copy lemmas\<close>

lemma copy_local_ok:
  "\<not> conversion_fails ac src oc \<Longrightarrow>
   snd (copy_local_file_to_watch g src d ac log oc) = None \<and>
   filter is_copy (fst (copy_local_file_to_watch g src d ac log oc)) = [expected_copy d ac src oc]"
  by (cases "ffmpeg oc")
     (auto simp: copy_local_file_to_watch_def convert_file_to_mp3_def conversion_fails_def
        expected_copy_def gio_copy_with_log_def ensure_destination_parent_def ensure_directory_def
        log_line_def Let_def)

lemma copy_local_fail:
  "conversion_fails ac src oc \<Longrightarrow>
   (\<exists>msg. snd (copy_local_file_to_watch g src d ac log oc) = Some (FFmpegError msg)) \<and>
   filter is_copy (fst (copy_local_file_to_watch g src d ac log oc)) = []"
  by (cases "ffmpeg oc")
     (auto simp: copy_local_file_to_watch_def convert_file_to_mp3_def conversion_fails_def
        log_line_def Let_def)

lemma map_upt_Cons:
  "map (\<lambda>i. f ((x # xs) ! i) (oc i)) [0..<Suc k] = f x (oc 0) # map (\<lambda>i. f (xs ! i) (oc (Suc i))) [0..<k]"
proof -
  have "[0..<Suc k] = 0 # map Suc [0..<k]"
    by (simp add: upt_conv_Cons map_Suc_upt del: upt_Suc)
  then show ?thesis by (simp add: comp_def del: upt_Suc)
qed

lemma copy_files_prefix:
  "k \<le> length files \<Longrightarrow>
   (\<forall>i<k. \<not> conversion_fails ac (files ! i) (oc i)) \<Longrightarrow>
   (k < length files \<longrightarrow> conversion_fails ac (files ! k) (oc k)) \<Longrightarrow>
   filter is_copy (fst (copy_files g files d ac log oc)) =
     map (\<lambda>i. expected_copy d ac (files ! i) (oc i)) [0..<k] \<and>
   (if k < length files
    then (\<exists>msg. snd (copy_files g files d ac log oc) = Some (FFmpegError msg))
    else snd (copy_files g files d ac log oc) = None)"
proof (induction files arbitrary: k oc)
  case Nil
  then show ?case by simp
next
  case (Cons f files)
  show ?case
  proof (cases k)
    case 0
    with Cons.prems have "conversion_fails ac f (oc 0)" by simp
    from copy_local_fail [OF this, of g d log] 0 show ?thesis
      by (auto split: prod.splits option.splits)
  next
    case (Suc k')
    from Cons.prems Suc have ok: "\<not> conversion_fails ac f (oc 0)" by auto
    from Cons.prems Suc have k1: "k' \<le> length files" by simp
    from Cons.prems(2) Suc
    have k2: "\<forall>i<k'. \<not> conversion_fails ac (files ! i) (oc (Suc i))" by auto
    from Cons.prems(3) Suc
    have k3: "k' < length files \<longrightarrow> conversion_fails ac (files ! k') (oc (Suc k'))" by simp
    note IH = Cons.IH [of k' "\<lambda>i. oc (Suc i)", OF k1 k2 k3]
    note hd = copy_local_ok [OF ok, of g d log]
    obtain ev r where c: "copy_local_file_to_watch g f d ac log (oc 0) = (ev, r)"
      by (cases "copy_local_file_to_watch g f d ac log (oc 0)")
    obtain ev' r' where c': "copy_files g files d ac log (\<lambda>i. oc (Suc i)) = (ev', r')"
      by (cases "copy_files g files d ac log (\<lambda>i. oc (Suc i))")
    from hd c have r: "r = None" and e: "filter is_copy ev = [expected_copy d ac f (oc 0)]" by simp_all
    have res: "copy_files g (f # files) d ac log oc = (ev @ ev', r')"
      using c c' r by simp
    have e': "filter is_copy ev' = map (\<lambda>i. expected_copy d ac (files ! i) (oc (Suc i))) [0..<k']"
      and r': "if k' < length files then (\<exists>msg. r' = Some (FFmpegError msg)) else r' = None"
      using IH unfolding c' by (auto split: if_splits)
    have "filter is_copy (ev @ ev') = map (\<lambda>i. expected_copy d ac ((f # files) ! i) (oc i)) [0..<Suc k']"
      unfolding map_upt_Cons using e e' by simp
    with r' show ?thesis unfolding res Suc by simp
  qed
qed

lemma wipe_directory_removes:
  "filter is_remove (wipe_directory p entries log results) = map (\<lambda>entry. GioRemove (joinpath p entry)) entries"
  by (induction entries arbitrary: results) (simp_all add: gio_remove_def log_line_def)

lemma copy_local_same:
  "ffmpeg oc' = ffmpeg oc \<Longrightarrow>
   snd (copy_local_file_to_watch g src d ac log oc') = snd (copy_local_file_to_watch g src d ac log oc) \<and>
   filter is_copy (fst (copy_local_file_to_watch g src d ac log oc')) =
   filter is_copy (fst (copy_local_file_to_watch g src d ac log oc))"
  by (cases "ffmpeg oc")
     (auto simp: copy_local_file_to_watch_def convert_file_to_mp3_def
        gio_copy_with_log_def ensure_destination_parent_def ensure_directory_def
        log_line_def Let_def)

lemma copy_files_same:
  "(\<forall>i. ffmpeg (oc' i) = ffmpeg (oc i)) \<Longrightarrow>
   snd (copy_files g files d ac log oc') = snd (copy_files g files d ac log oc) \<and>
   filter is_copy (fst (copy_files g files d ac log oc')) =
   filter is_copy (fst (copy_files g files d ac log oc))"
proof (induction files arbitrary: oc oc')
  case Nil
  then show ?case by simp
next
  case (Cons f files)
  from Cons.prems have h0: "ffmpeg (oc' 0) = ffmpeg (oc 0)" by simp
  from Cons.prems have hs: "\<forall>i. ffmpeg (oc' (Suc i)) = ffmpeg (oc (Suc i))" by simp
  note IH = Cons.IH [of "\<lambda>i. oc' (Suc i)" "\<lambda>i. oc (Suc i)", OF hs]
  note hd = copy_local_same [OF h0, of g f d ac log]
  obtain ev r where c: "copy_local_file_to_watch g f d ac log (oc 0) = (ev, r)"
    by (cases "copy_local_file_to_watch g f d ac log (oc 0)")
  obtain ev2 r2 where c2: "copy_local_file_to_watch g f d ac log (oc' 0) = (ev2, r2)"
    by (cases "copy_local_file_to_watch g f d ac log (oc' 0)")
  obtain ev' r' where c': "copy_files g files d ac log (\<lambda>i. oc (Suc i)) = (ev', r')"
    by (cases "copy_files g files d ac log (\<lambda>i. oc (Suc i))")
  obtain ev2' r2' where c2': "copy_files g files d ac log (\<lambda>i. oc' (Suc i)) = (ev2', r2')"
    by (cases "copy_files g files d ac log (\<lambda>i. oc' (Suc i))")
  from hd c c2 have r: "r2 = r" and e: "filter is_copy ev2 = filter is_copy ev" by simp_all
  have r': "r2' = r'" and e': "filter is_copy ev2' = filter is_copy ev'"
    using IH unfolding c' c2' by simp_all
  show ?case
    using c c2 c' c2' r e r' e' by (cases r) simp_all
qed

lemma copy_library_copies:
  "src_exists \<Longrightarrow>
   snd (copy_library_to_watch g src_dir src_exists files music_dir ac log oc) =
     snd (copy_files g files music_dir ac log oc) \<and>
   filter is_copy (fst (copy_library_to_watch g src_dir src_exists files music_dir ac log oc)) =
     filter is_copy (fst (copy_files g files music_dir ac log oc))"
  by (cases files)
     (auto simp: copy_library_to_watch_def log_line_def ensure_directory_def Let_def split: prod.splits)

section \<open>The stored object and the declared type\<close>

text \<open>
  On a payload of the declared type the lookup on the stored object is the typed
  \<open>is_uploaded\<close>, and it raises nothing.
\<close>

lemma dict_get_document:
  "dict_get (map (\<lambda>(k, r). (k, PDict r)) d) p =
     (case map_of d p of None \<Rightarrow> PNone | Some r \<Rightarrow> PDict r)"
  by (induction d) (auto simp: dict_get_def)

lemma is_uploaded_object_document:
  "is_uploaded_object (document (payload m)) p h = Inr (is_uploaded m p h)"
  by (cases "map_of (payload m) p")
     (simp_all add: is_uploaded_object_def document_def dict_get_document is_uploaded_def)

section \<open>The manifest: claims\<close>

text \<open>
  C1. The lookup is gated by the hash. \<open>is_uploaded(p, h)\<close> is \<open>(False, None)\<close> when the
  manifest has no record for \<open>p\<close>, and when the record's stored hash differs from \<open>h\<close>.
  Right after \<open>mark_uploaded(p, h, id)\<close>, \<open>is_uploaded(p, h)\<close> is \<open>(True, id)\<close> and
  \<open>is_uploaded(p, h2)\<close> is \<open>(False, None)\<close> for every other hash \<open>h2\<close>.
\<close>

theorem is_uploaded_hash_gated:
  "(map_of (payload m) p = None \<longrightarrow> is_uploaded m p h = (False, PNone)) \<and>
   (\<forall>r. map_of (payload m) p = Some r \<and> dict_get r ''sha256'' \<noteq> PStr h
        \<longrightarrow> is_uploaded m p h = (False, PNone)) \<and>
   is_uploaded (mark_uploaded dumps now p h uid m) p h = (True, opt_str uid) \<and>
   (h2 \<noteq> h \<longrightarrow> is_uploaded (mark_uploaded dumps now p h uid m) p h2 = (False, PNone))"
proof -
  have a: "map_of (payload m) p = None \<longrightarrow> is_uploaded m p h = (False, PNone)"
    by (simp add: is_uploaded_def)
  have b: "\<forall>r. map_of (payload m) p = Some r \<and> dict_get r ''sha256'' \<noteq> PStr h
        \<longrightarrow> is_uploaded m p h = (False, PNone)"
    by (simp add: is_uploaded_def)
  have c: "is_uploaded (mark_uploaded dumps now p h uid m) p h = (True, opt_str uid)"
    by (simp add: is_uploaded_after_mark)
  have d: "h2 \<noteq> h \<longrightarrow> is_uploaded (mark_uploaded dumps now p h uid m) p h2 = (False, PNone)"
    by (simp add: is_uploaded_after_mark)
  from a b c d show ?thesis by blast
qed

theorem is_uploaded_hash_gated_witness:
  "map_of (payload \<lparr>payload = [], file_text = None\<rparr>) ''GARMIN/Activity/a.fit'' = None \<and>
   is_uploaded \<lparr>payload = [], file_text = None\<rparr> ''GARMIN/Activity/a.fit'' ''aa'' = (False, PNone) \<and>
   map_of (payload \<lparr>payload = [(''GARMIN/Activity/a.fit'', [(''sha256'', PStr ''cc'')])], file_text = None\<rparr>)
      ''GARMIN/Activity/a.fit'' = Some [(''sha256'', PStr ''cc'')] \<and>
   dict_get [(''sha256'', PStr ''cc'')] ''sha256'' \<noteq> PStr ''aa'' \<and>
   is_uploaded \<lparr>payload = [(''GARMIN/Activity/a.fit'', [(''sha256'', PStr ''cc'')])], file_text = None\<rparr>
      ''GARMIN/Activity/a.fit'' ''aa'' = (False, PNone) \<and>
   ''bb'' \<noteq> ''aa'' \<and>
   is_uploaded (mark_uploaded (\<lambda>d. []) ''2024-01-01T00:00:00'' ''GARMIN/Activity/a.fit'' ''aa'' (Some ''42'')
                  \<lparr>payload = [], file_text = None\<rparr>) ''GARMIN/Activity/a.fit'' ''aa'' = (True, PStr ''42'') \<and>
   is_uploaded (mark_uploaded (\<lambda>d. []) ''2024-01-01T00:00:00'' ''GARMIN/Activity/a.fit'' ''aa'' (Some ''42'')
                  \<lparr>payload = [], file_text = None\<rparr>) ''GARMIN/Activity/a.fit'' ''bb'' = (False, PNone)"
  using is_uploaded_hash_gated [of "\<lparr>payload = [], file_text = None\<rparr>" "''GARMIN/Activity/a.fit''" "''aa''"
          "\<lambda>d. []" "''2024-01-01T00:00:00''" "Some ''42''" "''bb''"]
        is_uploaded_hash_gated [of "\<lparr>payload = [(''GARMIN/Activity/a.fit'', [(''sha256'', PStr ''cc'')])], file_text = None\<rparr>"
          "''GARMIN/Activity/a.fit''" "''aa''" "\<lambda>d. []" "''2024-01-01T00:00:00''" "Some ''42''" "''bb''"]
  by (simp add: dict_get_def)

text \<open>
  C10. Marking one path leaves every other path alone: for \<open>q\<close> different from \<open>p\<close>, the
  record stored for \<open>q\<close> (hash, uploaded flag, upload id, time stamp) is the same before
  and after \<open>mark_uploaded(p, h, id)\<close>, and before and after \<open>mark_copied(p, h)\<close>.
\<close>

theorem mark_other_path_unchanged:
  "p \<noteq> q \<Longrightarrow>
   map_of (payload (mark_uploaded dumps now p h uid m)) q = map_of (payload m) q \<and>
   map_of (payload (mark_copied dumps p h m)) q = map_of (payload m) q"
  by (simp add: payload_mark_uploaded payload_mark_copied)

theorem mark_other_path_unchanged_witness:
  "''a.fit'' \<noteq> ''b.fit'' \<and>
   map_of (payload (mark_uploaded (\<lambda>d. []) ''2024-01-01T00:00:00'' ''a.fit'' ''aa'' (Some ''42'')
      \<lparr>payload = [(''b.fit'', [(''sha256'', PStr ''bb''), (''uploaded'', PBool True)])], file_text = None\<rparr>)) ''b.fit''
     = Some [(''sha256'', PStr ''bb''), (''uploaded'', PBool True)] \<and>
   map_of (payload (mark_copied (\<lambda>d. []) ''a.fit'' ''aa''
      \<lparr>payload = [(''b.fit'', [(''sha256'', PStr ''bb''), (''uploaded'', PBool True)])], file_text = None\<rparr>)) ''b.fit''
     = Some [(''sha256'', PStr ''bb''), (''uploaded'', PBool True)]"
  using mark_other_path_unchanged [of "''a.fit''" "''b.fit''" "\<lambda>d. []" "''2024-01-01T00:00:00''" "''aa''" "Some ''42''"
     "\<lparr>payload = [(''b.fit'', [(''sha256'', PStr ''bb''), (''uploaded'', PBool True)])], file_text = None\<rparr>"]
  by simp

text \<open>
  C8. The constructor is resilient only in part, and the claim fails in the rest.
  A missing file, and a text on which \<open>json.loads\<close> raises \<open>JSONDecodeError\<close>, give an
  empty payload, on which \<open>is_uploaded\<close> answers \<open>(False, None)\<close> for every path and hash.
  But an exception of \<open>read_text()\<close>, and any other exception of \<open>json.loads\<close>, leaves
  the constructor; and a text that the decoder accepts is stored as it comes, so that
  \<open>is_uploaded\<close> raises \<open>AttributeError\<close> whenever the stored object is not a dictionary,
  and whenever it is a dictionary that holds, for the path asked, a true object that is
  not a dictionary. On a stored object of the declared shape the lookup raises nothing
  and is the lookup of the methods' model.
\<close>

theorem load_resilience:
  "init loads NoFile = Inr (PDict []) \<and>
   (loads text = JSONDecodeError \<longrightarrow> init loads (FileText text) = Inr (PDict [])) \<and>
   is_uploaded_object (PDict []) p h = Inr (False, PNone) \<and>
   init loads (ReadFails e) = Inl e \<and>
   (loads text = DecoderRaises e \<longrightarrow> init loads (FileText text) = Inl e) \<and>
   (loads text = Decoded doc \<longrightarrow> init loads (FileText text) = Inr doc) \<and>
   ((\<forall>d. doc \<noteq> PDict d) \<longrightarrow> is_uploaded_object doc p h = Inl (AttributeError ''get'')) \<and>
   (truthy (dict_get stored p) \<and> (\<forall>r. dict_get stored p \<noteq> PDict r) \<longrightarrow>
      is_uploaded_object (PDict stored) p h = Inl (AttributeError ''get'')) \<and>
   is_uploaded_object (document (payload m)) p h = Inr (is_uploaded m p h)"
proof -
  have a: "init loads NoFile = Inr (PDict [])"
    by (simp add: init_def load_def)
  have b: "loads text = JSONDecodeError \<longrightarrow> init loads (FileText text) = Inr (PDict [])"
    by (simp add: init_def load_def)
  have c: "is_uploaded_object (PDict []) p h = Inr (False, PNone)"
    by (simp add: is_uploaded_object_def dict_get_def)
  have d: "init loads (ReadFails e) = Inl e"
    by (simp add: init_def load_def)
  have e: "loads text = DecoderRaises e \<longrightarrow> init loads (FileText text) = Inl e"
    by (simp add: init_def load_def)
  have f: "loads text = Decoded doc \<longrightarrow> init loads (FileText text) = Inr doc"
    by (simp add: init_def load_def)
  have g: "(\<forall>d. doc \<noteq> PDict d) \<longrightarrow> is_uploaded_object doc p h = Inl (AttributeError ''get'')"
    by (cases doc) (simp_all add: is_uploaded_object_def)
  have i: "truthy (dict_get stored p) \<and> (\<forall>r. dict_get stored p \<noteq> PDict r) \<longrightarrow>
      is_uploaded_object (PDict stored) p h = Inl (AttributeError ''get'')"
    by (cases "dict_get stored p") (simp_all add: is_uploaded_object_def)
  have j: "is_uploaded_object (document (payload m)) p h = Inr (is_uploaded m p h)"
    by (rule is_uploaded_object_document)
  from a b c d e f g i j show ?thesis by simp
qed

theorem load_resilience_witness:
  "init (\<lambda>s. if s = ''NaN'' then Decoded (PFloat NaN) else JSONDecodeError) NoFile = Inr (PDict []) \<and>
   init (\<lambda>s. if s = ''NaN'' then Decoded (PFloat NaN) else JSONDecodeError) (FileText ''{not json'')
     = Inr (PDict []) \<and>
   is_uploaded_object (PDict []) ''a.fit'' ''aa'' = Inr (False, PNone) \<and>
   init (\<lambda>s. if s = ''NaN'' then Decoded (PFloat NaN) else JSONDecodeError) (ReadFails UnicodeDecodeError)
     = Inl UnicodeDecodeError \<and>
   init (\<lambda>s. DecoderRaises RecursionError) (FileText ''[[[['') = Inl RecursionError \<and>
   init (\<lambda>s. if s = ''NaN'' then Decoded (PFloat NaN) else JSONDecodeError) (FileText ''NaN'')
     = Inr (PFloat NaN) \<and>
   is_uploaded_object (PFloat NaN) ''a.fit'' ''aa'' = Inl (AttributeError ''get'') \<and>
   truthy (dict_get [(''a.fit'', PStr ''x'')] ''a.fit'') \<and>
   is_uploaded_object (PDict [(''a.fit'', PStr ''x'')]) ''a.fit'' ''aa'' = Inl (AttributeError ''get'') \<and>
   is_uploaded_object
     (document (payload \<lparr>payload = [(''a.fit'', [(''sha256'', PStr ''aa''), (''uploaded'', PBool True)])],
                          file_text = None\<rparr>)) ''a.fit'' ''aa'' = Inr (True, PNone)"
  using load_resilience [of "\<lambda>s. if s = ''NaN'' then Decoded (PFloat NaN) else JSONDecodeError"
          "''{not json''" "''a.fit''" "''aa''" UnicodeDecodeError "PFloat NaN" "[(''a.fit'', PStr ''x'')]"
          "\<lparr>payload = [(''a.fit'', [(''sha256'', PStr ''aa''), (''uploaded'', PBool True)])], file_text = None\<rparr>"]
        load_resilience [of "\<lambda>s. DecoderRaises RecursionError"
          "''[[[[''" "''a.fit''" "''aa''" RecursionError "PFloat NaN" "[(''a.fit'', PStr ''x'')]"
          "\<lparr>payload = [(''a.fit'', [(''sha256'', PStr ''aa''), (''uploaded'', PBool True)])], file_text = None\<rparr>"]
        load_resilience [of "\<lambda>s. if s = ''NaN'' then Decoded (PFloat NaN) else JSONDecodeError"
          "''NaN''" "''a.fit''" "''aa''" UnicodeDecodeError "PFloat NaN" "[(''a.fit'', PStr ''x'')]"
          "\<lparr>payload = [(''a.fit'', [(''sha256'', PStr ''aa''), (''uploaded'', PBool True)])], file_text = None\<rparr>"]
  by (simp add: dict_get_def is_uploaded_def)

text \<open>
  C7. \<open>mark_copied(p, h)\<close> never downgrades. For a path without a record it stores the
  record \<open>{"sha256": h}\<close>. For a path with a record it changes no key other than
  \<open>sha256\<close> (so the uploaded flag, the upload id and the time stamp stay), it stores \<open>h\<close>
  only when the record has no \<open>sha256\<close> key, and a record that has the key is left as it
  is. In particular, when \<open>is_uploaded(p, h0)\<close> was \<open>(True, id)\<close> before, it is \<open>(True, id)\<close>
  afterwards. The manifest file holds the new payload.
\<close>

theorem mark_copied_never_downgrades:
  "(map_of (payload m) p = None \<longrightarrow>
      map_of (payload (mark_copied dumps p h m)) p = Some [(''sha256'', PStr h)]) \<and>
   (\<forall>r. map_of (payload m) p = Some r \<longrightarrow>
      (\<exists>r'. map_of (payload (mark_copied dumps p h m)) p = Some r' \<and>
         (\<forall>k. k \<noteq> ''sha256'' \<longrightarrow> map_of r' k = map_of r k) \<and>
         (map_of r ''sha256'' = None \<longrightarrow> map_of r' ''sha256'' = Some (PStr h)) \<and>
         (map_of r ''sha256'' \<noteq> None \<longrightarrow> r' = r))) \<and>
   (is_uploaded m p h0 = (True, u) \<longrightarrow> is_uploaded (mark_copied dumps p h m) p h0 = (True, u)) \<and>
   file_text (mark_copied dumps p h m) = Some (dumps (payload (mark_copied dumps p h m)))"
proof (intro conjI allI impI)
  assume "map_of (payload m) p = None"
  then show "map_of (payload (mark_copied dumps p h m)) p = Some [(''sha256'', PStr h)]"
    by (rule mark_copied_new)
next
  fix r assume "map_of (payload m) p = Some r"
  then show "\<exists>r'. map_of (payload (mark_copied dumps p h m)) p = Some r' \<and>
         (\<forall>k. k \<noteq> ''sha256'' \<longrightarrow> map_of r' k = map_of r k) \<and>
         (map_of r ''sha256'' = None \<longrightarrow> map_of r' ''sha256'' = Some (PStr h)) \<and>
         (map_of r ''sha256'' \<noteq> None \<longrightarrow> r' = r)"
    by (rule mark_copied_fields)
next
  assume "is_uploaded m p h0 = (True, u)"
  then show "is_uploaded (mark_copied dumps p h m) p h0 = (True, u)"
    by (rule mark_copied_keeps_uploaded)
next
  show "file_text (mark_copied dumps p h m) = Some (dumps (payload (mark_copied dumps p h m)))"
    by (rule mark_copied_saved)
qed

theorem mark_copied_never_downgrades_witness:
  "map_of (payload \<lparr>payload = [], file_text = None\<rparr>) ''a.fit'' = None \<and>
   map_of (payload (mark_copied (\<lambda>d. []) ''a.fit'' ''bb'' \<lparr>payload = [], file_text = None\<rparr>)) ''a.fit''
     = Some [(''sha256'', PStr ''bb'')] \<and>
   map_of (payload \<lparr>payload = [(''a.fit'', [(''sha256'', PStr ''aa''), (''uploaded'', PBool True),
        (''upload_id'', PStr ''42'')])], file_text = None\<rparr>) ''a.fit''
     = Some [(''sha256'', PStr ''aa''), (''uploaded'', PBool True), (''upload_id'', PStr ''42'')] \<and>
   map_of [(''sha256'', PStr ''aa''), (''uploaded'', PBool True), (''upload_id'', PStr ''42'')] ''sha256'' \<noteq> None \<and>
   is_uploaded \<lparr>payload = [(''a.fit'', [(''sha256'', PStr ''aa''), (''uploaded'', PBool True),
        (''upload_id'', PStr ''42'')])], file_text = None\<rparr> ''a.fit'' ''aa'' = (True, PStr ''42'') \<and>
   map_of (payload (mark_copied (\<lambda>d. []) ''a.fit'' ''bb''
      \<lparr>payload = [(''a.fit'', [(''sha256'', PStr ''aa''), (''uploaded'', PBool True),
        (''upload_id'', PStr ''42'')])], file_text = None\<rparr>)) ''a.fit''
     = Some [(''sha256'', PStr ''aa''), (''uploaded'', PBool True), (''upload_id'', PStr ''42'')] \<and>
   is_uploaded (mark_copied (\<lambda>d. []) ''a.fit'' ''bb''
      \<lparr>payload = [(''a.fit'', [(''sha256'', PStr ''aa''), (''uploaded'', PBool True),
        (''upload_id'', PStr ''42'')])], file_text = None\<rparr>) ''a.fit'' ''aa'' = (True, PStr ''42'') \<and>
   map_of (payload \<lparr>payload = [(''a.fit'', [(''uploaded'', PBool False)])], file_text = None\<rparr>) ''a.fit''
     = Some [(''uploaded'', PBool False)] \<and>
   map_of [(''uploaded'', PBool False)] ''sha256'' = None \<and>
   map_of (payload (mark_copied (\<lambda>d. []) ''a.fit'' ''bb''
      \<lparr>payload = [(''a.fit'', [(''uploaded'', PBool False)])], file_text = None\<rparr>)) ''a.fit''
     = Some [(''uploaded'', PBool False), (''sha256'', PStr ''bb'')]"
  using mark_copied_never_downgrades [of "\<lparr>payload = [], file_text = None\<rparr>" "''a.fit''" "\<lambda>d. []" "''bb''" "''aa''" "PStr ''42''"]
    mark_copied_never_downgrades [of
      "\<lparr>payload = [(''a.fit'', [(''sha256'', PStr ''aa''), (''uploaded'', PBool True),
        (''upload_id'', PStr ''42'')])], file_text = None\<rparr>" "''a.fit''" "\<lambda>d. []" "''bb''" "''aa''" "PStr ''42''"]
    mark_copied_never_downgrades [of
      "\<lparr>payload = [(''a.fit'', [(''uploaded'', PBool False)])], file_text = None\<rparr>" "''a.fit''" "\<lambda>d. []" "''bb''" "''aa''" "PStr ''42''"]
  by (simp add: mark_copied_def save_def dict_setdefault_def is_uploaded_def dict_get_def)



section \<open>Workouts: claims\<close>

text \<open>
  C6. The estimated duration of every template is warmup + cooldown +
  repeats * (interval + recovery), each of the five components replaced by 0 when it is
  negative. For the template with warmup 300, interval 60, recovery 60, 6 repeats and
  cooldown 300 it is 1320, \<open>build_payload\<close> returns a payload for that template, and the
  payload's \<open>estimatedDurationInSecs\<close> is 1320. Whenever \<open>build_payload\<close> returns a
  payload, its \<open>estimatedDurationInSecs\<close> is the template's estimated duration.
\<close>

theorem estimated_duration_clamped:
  "estimated_duration t =
     (if warmup_seconds t < 0 then 0 else warmup_seconds t)
     + (if cooldown_seconds t < 0 then 0 else cooldown_seconds t)
     + (if repeats t < 0 then 0 else repeats t)
       * ((if interval_seconds t < 0 then 0 else interval_seconds t)
          + (if recovery_seconds t < 0 then 0 else recovery_seconds t)) \<and>
   estimated_duration \<lparr>name = nm, sport = sp, warmup_seconds = 300, interval_seconds = 60,
       recovery_seconds = 60, repeats = 6, cooldown_seconds = 300\<rparr> = 1320 \<and>
   (\<exists>p. build_payload \<lparr>name = nm, sport = sp, warmup_seconds = 300, interval_seconds = 60,
       recovery_seconds = 60, repeats = 6, cooldown_seconds = 300\<rparr> = Inr p \<and>
       estimatedDurationInSecs p = 1320) \<and>
   (\<forall>p. build_payload t = Inr p \<longrightarrow> estimatedDurationInSecs p = estimated_duration t)"
proof (intro conjI allI impI)
  show "estimated_duration t =
     (if warmup_seconds t < 0 then 0 else warmup_seconds t)
     + (if cooldown_seconds t < 0 then 0 else cooldown_seconds t)
     + (if repeats t < 0 then 0 else repeats t)
       * ((if interval_seconds t < 0 then 0 else interval_seconds t)
          + (if recovery_seconds t < 0 then 0 else recovery_seconds t))"
    by (simp add: estimated_duration_def Let_def max_def not_less)
  let ?ex = "\<lparr>name = nm, sport = sp, warmup_seconds = 300, interval_seconds = 60,
       recovery_seconds = 60, repeats = 6, cooldown_seconds = 300\<rparr>"
  show d: "estimated_duration ?ex = 1320"
    by (simp add: estimated_duration_def Let_def)
  have "\<exists>p. build_payload ?ex = Inr p"
    by (rule build_payload_returns) (simp add: small_float [of 300, simplified]
          small_float [of 60, simplified] small_float [of 6, simplified])
  then obtain p where p: "build_payload ?ex = Inr p" ..
  from build_payload_Inr [OF p] d have "estimatedDurationInSecs p = 1320" by simp
  with p show "\<exists>p. build_payload ?ex = Inr p \<and> estimatedDurationInSecs p = 1320" by blast
next
  fix p assume "build_payload t = Inr p"
  from build_payload_Inr [OF this] show "estimatedDurationInSecs p = estimated_duration t" by simp
qed

theorem estimated_duration_clamped_witness:
  "estimated_duration \<lparr>name = ''Tempo'', sport = ''running'', warmup_seconds = 300, interval_seconds = 60, recovery_seconds = 60, repeats = 6, cooldown_seconds = 300\<rparr> = 1320 \<and>
   build_payload \<lparr>name = ''Tempo'', sport = ''running'', warmup_seconds = 300, interval_seconds = 60, recovery_seconds = 60, repeats = 6, cooldown_seconds = 300\<rparr> =
     Inr \<lparr>workoutName = ''Tempo'',
        sportType = [(''sportTypeId'', PInt 1), (''sportTypeKey'', PStr ''running''), (''displayOrder'', PInt 1)],
        estimatedDurationInSecs = 1320,
        workoutSegments =
          [\<lparr>segmentOrder = 1,
            sportType = [(''sportTypeId'', PInt 1), (''sportTypeKey'', PStr ''running''), (''displayOrder'', PInt 1)],
            workoutSteps =
             [ExecutableStepDTO 1
                [(''stepTypeId'', PInt 1), (''stepTypeKey'', PStr ''warmup''), (''displayOrder'', PInt 1)]
                TIME_CONDITION (Float 300) TARGET_NONE
                [(''strokeTypeId'', PInt 0), (''displayOrder'', PInt 0)]
                [(''equipmentTypeId'', PInt 0), (''displayOrder'', PInt 0)],
              RepeatGroupDTO 2
                [(''stepTypeId'', PInt 6), (''stepTypeKey'', PStr ''repeat''), (''displayOrder'', PInt 6)]
                6
                [ExecutableStepDTO 3
                [(''stepTypeId'', PInt 3), (''stepTypeKey'', PStr ''interval''), (''displayOrder'', PInt 3)]
                TIME_CONDITION (Float 60) TARGET_NONE
                [(''strokeTypeId'', PInt 0), (''displayOrder'', PInt 0)]
                [(''equipmentTypeId'', PInt 0), (''displayOrder'', PInt 0)],
                 ExecutableStepDTO 4
                [(''stepTypeId'', PInt 4), (''stepTypeKey'', PStr ''recovery''), (''displayOrder'', PInt 4)]
                TIME_CONDITION (Float 60) TARGET_NONE
                [(''strokeTypeId'', PInt 0), (''displayOrder'', PInt 0)]
                [(''equipmentTypeId'', PInt 0), (''displayOrder'', PInt 0)]]
                (Float 6) ITERATION_CONDITION False,
              ExecutableStepDTO 4
                [(''stepTypeId'', PInt 2), (''stepTypeKey'', PStr ''cooldown''), (''displayOrder'', PInt 2)]
                TIME_CONDITION (Float 300) TARGET_NONE
                [(''strokeTypeId'', PInt 0), (''displayOrder'', PInt 0)]
                [(''equipmentTypeId'', PInt 0), (''displayOrder'', PInt 0)]]\<rparr>]\<rparr> \<and>
   estimatedDurationInSecs \<lparr>workoutName = ''Tempo'',
        sportType = [(''sportTypeId'', PInt 1), (''sportTypeKey'', PStr ''running''), (''displayOrder'', PInt 1)],
        estimatedDurationInSecs = 1320,
        workoutSegments =
          [\<lparr>segmentOrder = 1,
            sportType = [(''sportTypeId'', PInt 1), (''sportTypeKey'', PStr ''running''), (''displayOrder'', PInt 1)],
            workoutSteps =
             [ExecutableStepDTO 1
                [(''stepTypeId'', PInt 1), (''stepTypeKey'', PStr ''warmup''), (''displayOrder'', PInt 1)]
                TIME_CONDITION (Float 300) TARGET_NONE
                [(''strokeTypeId'', PInt 0), (''displayOrder'', PInt 0)]
                [(''equipmentTypeId'', PInt 0), (''displayOrder'', PInt 0)],
              RepeatGroupDTO 2
                [(''stepTypeId'', PInt 6), (''stepTypeKey'', PStr ''repeat''), (''displayOrder'', PInt 6)]
                6
                [ExecutableStepDTO 3
                [(''stepTypeId'', PInt 3), (''stepTypeKey'', PStr ''interval''), (''displayOrder'', PInt 3)]
                TIME_CONDITION (Float 60) TARGET_NONE
                [(''strokeTypeId'', PInt 0), (''displayOrder'', PInt 0)]
                [(''equipmentTypeId'', PInt 0), (''displayOrder'', PInt 0)],
                 ExecutableStepDTO 4
                [(''stepTypeId'', PInt 4), (''stepTypeKey'', PStr ''recovery''), (''displayOrder'', PInt 4)]
                TIME_CONDITION (Float 60) TARGET_NONE
                [(''strokeTypeId'', PInt 0), (''displayOrder'', PInt 0)]
                [(''equipmentTypeId'', PInt 0), (''displayOrder'', PInt 0)]]
                (Float 6) ITERATION_CONDITION False,
              ExecutableStepDTO 4
                [(''stepTypeId'', PInt 2), (''stepTypeKey'', PStr ''cooldown''), (''displayOrder'', PInt 2)]
                TIME_CONDITION (Float 300) TARGET_NONE
                [(''strokeTypeId'', PInt 0), (''displayOrder'', PInt 0)]
                [(''equipmentTypeId'', PInt 0), (''displayOrder'', PInt 0)]]\<rparr>]\<rparr> = estimated_duration \<lparr>name = ''Tempo'', sport = ''running'', warmup_seconds = 300, interval_seconds = 60, recovery_seconds = 60, repeats = 6, cooldown_seconds = 300\<rparr>"
  using estimated_duration_clamped [of "\<lparr>name = ''Tempo'', sport = ''running'', warmup_seconds = 300, interval_seconds = 60, recovery_seconds = 60, repeats = 6, cooldown_seconds = 300\<rparr>" "''Tempo''" "''running''"] example_payload
  by simp

text \<open>
  C2. The order indices that \<open>build_payload\<close> hands out, in emission order (a repeat
  block's own index, then those of its two children). The warmup step gets 1; a repeat
  block starting at \<open>n\<close> gets \<open>n\<close> and its children \<open>n + 1\<close> and \<open>n + 2\<close>. But
  \<open>build_repeat_block\<close> returns \<open>order + 2\<close>, the index of its last child, as the next
  index, where the warmup branch steps past the index it used. So a cooldown step that
  follows a repeat block gets the index of the recovery child again: the indices are
  distinct exactly when the payload does not have both a repeat block and a cooldown.
\<close>

theorem build_payload_step_orders:
  "build_payload t = Inr p \<Longrightarrow>
   payload_step_orders p =
     (if warmup_seconds t > 0 then [1] else [])
     @ (if repeats t > 0 \<and> interval_seconds t > 0
        then (if warmup_seconds t > 0 then [2, 3, 4] else [1, 2, 3]) else [])
     @ (if cooldown_seconds t > 0
        then [(if warmup_seconds t > 0 then 2 else 1)
              + (if repeats t > 0 \<and> interval_seconds t > 0 then 2 else 0)]
        else []) \<and>
   (distinct (payload_step_orders p) \<longleftrightarrow>
      \<not> (repeats t > 0 \<and> interval_seconds t > 0 \<and> cooldown_seconds t > 0))"
proof -
  assume p: "build_payload t = Inr p"
  note o = build_payload_orders [OF p]
  have "distinct (payload_step_orders p) \<longleftrightarrow>
      \<not> (repeats t > 0 \<and> interval_seconds t > 0 \<and> cooldown_seconds t > 0)"
    unfolding o by simp
  with o show ?thesis by simp
qed

theorem build_payload_step_orders_witness:
  "build_payload \<lparr>name = ''Tempo'', sport = ''running'', warmup_seconds = 300, interval_seconds = 60, recovery_seconds = 60, repeats = 6, cooldown_seconds = 300\<rparr> =
     Inr \<lparr>workoutName = ''Tempo'',
        sportType = [(''sportTypeId'', PInt 1), (''sportTypeKey'', PStr ''running''), (''displayOrder'', PInt 1)],
        estimatedDurationInSecs = 1320,
        workoutSegments =
          [\<lparr>segmentOrder = 1,
            sportType = [(''sportTypeId'', PInt 1), (''sportTypeKey'', PStr ''running''), (''displayOrder'', PInt 1)],
            workoutSteps =
             [ExecutableStepDTO 1
                [(''stepTypeId'', PInt 1), (''stepTypeKey'', PStr ''warmup''), (''displayOrder'', PInt 1)]
                TIME_CONDITION (Float 300) TARGET_NONE
                [(''strokeTypeId'', PInt 0), (''displayOrder'', PInt 0)]
                [(''equipmentTypeId'', PInt 0), (''displayOrder'', PInt 0)],
              RepeatGroupDTO 2
                [(''stepTypeId'', PInt 6), (''stepTypeKey'', PStr ''repeat''), (''displayOrder'', PInt 6)]
                6
                [ExecutableStepDTO 3
                [(''stepTypeId'', PInt 3), (''stepTypeKey'', PStr ''interval''), (''displayOrder'', PInt 3)]
                TIME_CONDITION (Float 60) TARGET_NONE
                [(''strokeTypeId'', PInt 0), (''displayOrder'', PInt 0)]
                [(''equipmentTypeId'', PInt 0), (''displayOrder'', PInt 0)],
                 ExecutableStepDTO 4
                [(''stepTypeId'', PInt 4), (''stepTypeKey'', PStr ''recovery''), (''displayOrder'', PInt 4)]
                TIME_CONDITION (Float 60) TARGET_NONE
                [(''strokeTypeId'', PInt 0), (''displayOrder'', PInt 0)]
                [(''equipmentTypeId'', PInt 0), (''displayOrder'', PInt 0)]]
                (Float 6) ITERATION_CONDITION False,
              ExecutableStepDTO 4
                [(''stepTypeId'', PInt 2), (''stepTypeKey'', PStr ''cooldown''), (''displayOrder'', PInt 2)]
                TIME_CONDITION (Float 300) TARGET_NONE
                [(''strokeTypeId'', PInt 0), (''displayOrder'', PInt 0)]
                [(''equipmentTypeId'', PInt 0), (''displayOrder'', PInt 0)]]\<rparr>]\<rparr> \<and>
   payload_step_orders \<lparr>workoutName = ''Tempo'',
        sportType = [(''sportTypeId'', PInt 1), (''sportTypeKey'', PStr ''running''), (''displayOrder'', PInt 1)],
        estimatedDurationInSecs = 1320,
        workoutSegments =
          [\<lparr>segmentOrder = 1,
            sportType = [(''sportTypeId'', PInt 1), (''sportTypeKey'', PStr ''running''), (''displayOrder'', PInt 1)],
            workoutSteps =
             [ExecutableStepDTO 1
                [(''stepTypeId'', PInt 1), (''stepTypeKey'', PStr ''warmup''), (''displayOrder'', PInt 1)]
                TIME_CONDITION (Float 300) TARGET_NONE
                [(''strokeTypeId'', PInt 0), (''displayOrder'', PInt 0)]
                [(''equipmentTypeId'', PInt 0), (''displayOrder'', PInt 0)],
              RepeatGroupDTO 2
                [(''stepTypeId'', PInt 6), (''stepTypeKey'', PStr ''repeat''), (''displayOrder'', PInt 6)]
                6
                [ExecutableStepDTO 3
                [(''stepTypeId'', PInt 3), (''stepTypeKey'', PStr ''interval''), (''displayOrder'', PInt 3)]
                TIME_CONDITION (Float 60) TARGET_NONE
                [(''strokeTypeId'', PInt 0), (''displayOrder'', PInt 0)]
                [(''equipmentTypeId'', PInt 0), (''displayOrder'', PInt 0)],
                 ExecutableStepDTO 4
                [(''stepTypeId'', PInt 4), (''stepTypeKey'', PStr ''recovery''), (''displayOrder'', PInt 4)]
                TIME_CONDITION (Float 60) TARGET_NONE
                [(''strokeTypeId'', PInt 0), (''displayOrder'', PInt 0)]
                [(''equipmentTypeId'', PInt 0), (''displayOrder'', PInt 0)]]
                (Float 6) ITERATION_CONDITION False,
              ExecutableStepDTO 4
                [(''stepTypeId'', PInt 2), (''stepTypeKey'', PStr ''cooldown''), (''displayOrder'', PInt 2)]
                TIME_CONDITION (Float 300) TARGET_NONE
                [(''strokeTypeId'', PInt 0), (''displayOrder'', PInt 0)]
                [(''equipmentTypeId'', PInt 0), (''displayOrder'', PInt 0)]]\<rparr>]\<rparr> = [1, 2, 3, 4, 4] \<and>
   \<not> distinct (payload_step_orders \<lparr>workoutName = ''Tempo'',
        sportType = [(''sportTypeId'', PInt 1), (''sportTypeKey'', PStr ''running''), (''displayOrder'', PInt 1)],
        estimatedDurationInSecs = 1320,
        workoutSegments =
          [\<lparr>segmentOrder = 1,
            sportType = [(''sportTypeId'', PInt 1), (''sportTypeKey'', PStr ''running''), (''displayOrder'', PInt 1)],
            workoutSteps =
             [ExecutableStepDTO 1
                [(''stepTypeId'', PInt 1), (''stepTypeKey'', PStr ''warmup''), (''displayOrder'', PInt 1)]
                TIME_CONDITION (Float 300) TARGET_NONE
                [(''strokeTypeId'', PInt 0), (''displayOrder'', PInt 0)]
                [(''equipmentTypeId'', PInt 0), (''displayOrder'', PInt 0)],
              RepeatGroupDTO 2
                [(''stepTypeId'', PInt 6), (''stepTypeKey'', PStr ''repeat''), (''displayOrder'', PInt 6)]
                6
                [ExecutableStepDTO 3
                [(''stepTypeId'', PInt 3), (''stepTypeKey'', PStr ''interval''), (''displayOrder'', PInt 3)]
                TIME_CONDITION (Float 60) TARGET_NONE
                [(''strokeTypeId'', PInt 0), (''displayOrder'', PInt 0)]
                [(''equipmentTypeId'', PInt 0), (''displayOrder'', PInt 0)],
                 ExecutableStepDTO 4
                [(''stepTypeId'', PInt 4), (''stepTypeKey'', PStr ''recovery''), (''displayOrder'', PInt 4)]
                TIME_CONDITION (Float 60) TARGET_NONE
                [(''strokeTypeId'', PInt 0), (''displayOrder'', PInt 0)]
                [(''equipmentTypeId'', PInt 0), (''displayOrder'', PInt 0)]]
                (Float 6) ITERATION_CONDITION False,
              ExecutableStepDTO 4
                [(''stepTypeId'', PInt 2), (''stepTypeKey'', PStr ''cooldown''), (''displayOrder'', PInt 2)]
                TIME_CONDITION (Float 300) TARGET_NONE
                [(''strokeTypeId'', PInt 0), (''displayOrder'', PInt 0)]
                [(''equipmentTypeId'', PInt 0), (''displayOrder'', PInt 0)]]\<rparr>]\<rparr>)"
  using build_payload_step_orders [OF example_payload] example_payload
  by simp

text \<open>
  C3. \<open>build_payload\<close> converts the duration of every step it emits with \<open>float\<close>, which
  raises \<open>OverflowError\<close> from \<open>2^1024 - 2^970\<close> on, so it does not build a payload for
  every template. For every template whose emitted durations are below that bound (the
  warmup when positive; interval, recovery in magnitude, and repeats when a repeat block
  is emitted; the cooldown when positive) it returns a payload with exactly one segment,
  of \<open>segmentOrder\<close> 1, whose number of top-level steps is
  1 if warmup > 0, plus 1 if repeats > 0 and interval > 0, plus 1 if cooldown > 0;
  with \<open>repeats = 0\<close> no step is a repeat block, whatever the interval is. For every other
  template it raises \<open>OverflowError\<close>. An all-zero template compiles without error to
  an empty step list in a segment of \<open>segmentOrder\<close> 1.
\<close>

theorem build_payload_step_count:
  "(if (warmup_seconds t > 0 \<longrightarrow> warmup_seconds t < FLOAT_LIMIT) \<and>
       (repeats t > 0 \<and> interval_seconds t > 0 \<longrightarrow>
          interval_seconds t < FLOAT_LIMIT \<and> \<bar>recovery_seconds t\<bar> < FLOAT_LIMIT \<and> repeats t < FLOAT_LIMIT) \<and>
       (cooldown_seconds t > 0 \<longrightarrow> cooldown_seconds t < FLOAT_LIMIT)
    then (\<exists>p sp steps. build_payload t = Inr p \<and>
            workoutSegments p = [\<lparr>segmentOrder = 1, sportType = sp, workoutSteps = steps\<rparr>] \<and>
            length steps = (if warmup_seconds t > 0 then 1 else 0)
                         + (if repeats t > 0 \<and> interval_seconds t > 0 then 1 else 0)
                         + (if cooldown_seconds t > 0 then 1 else 0) \<and>
            (repeats t = 0 \<longrightarrow> (\<forall>s \<in> set steps. is_ExecutableStepDTO s)) \<and>
            (warmup_seconds t = 0 \<and> repeats t = 0 \<and> cooldown_seconds t = 0 \<longrightarrow> steps = []))
    else build_payload t = Inl OverflowError) \<and>
   (warmup_seconds t = 0 \<and> interval_seconds t = 0 \<and> recovery_seconds t = 0 \<and> repeats t = 0 \<and>
    cooldown_seconds t = 0 \<longrightarrow>
      (\<exists>p sp. build_payload t = Inr p \<and>
         workoutSegments p = [\<lparr>segmentOrder = 1, sportType = sp, workoutSteps = []\<rparr>]))"
proof -
  let ?range = "(warmup_seconds t > 0 \<longrightarrow> warmup_seconds t < FLOAT_LIMIT) \<and>
       (repeats t > 0 \<and> interval_seconds t > 0 \<longrightarrow>
          interval_seconds t < FLOAT_LIMIT \<and> \<bar>recovery_seconds t\<bar> < FLOAT_LIMIT \<and> repeats t < FLOAT_LIMIT) \<and>
       (cooldown_seconds t > 0 \<longrightarrow> cooldown_seconds t < FLOAT_LIMIT)"
  have a: "?range \<Longrightarrow> \<exists>p sp steps. build_payload t = Inr p \<and>
            workoutSegments p = [\<lparr>segmentOrder = 1, sportType = sp, workoutSteps = steps\<rparr>] \<and>
            length steps = (if warmup_seconds t > 0 then 1 else 0)
                         + (if repeats t > 0 \<and> interval_seconds t > 0 then 1 else 0)
                         + (if cooldown_seconds t > 0 then 1 else 0) \<and>
            (repeats t = 0 \<longrightarrow> (\<forall>s \<in> set steps. is_ExecutableStepDTO s)) \<and>
            (warmup_seconds t = 0 \<and> repeats t = 0 \<and> cooldown_seconds t = 0 \<longrightarrow> steps = [])"
  proof -
    assume "?range"
    then obtain p where p: "build_payload t = Inr p"
      using build_payload_returns [of t] by blast
    from build_payload_Inr [OF p] obtain sp steps where
      seg: "workoutSegments p = [\<lparr>segmentOrder = 1, sportType = sp, workoutSteps = steps\<rparr>]" and
      len: "length steps = (if warmup_seconds t > 0 then 1 else 0)
                         + (if repeats t > 0 \<and> interval_seconds t > 0 then 1 else 0)
                         + (if cooldown_seconds t > 0 then 1 else 0)" and
      ex: "\<not> (repeats t > 0 \<and> interval_seconds t > 0) \<longrightarrow> (\<forall>s \<in> set steps. is_ExecutableStepDTO s)"
      by blast
    from ex have e0: "repeats t = 0 \<longrightarrow> (\<forall>s \<in> set steps. is_ExecutableStepDTO s)" by simp
    from len have z: "warmup_seconds t = 0 \<and> repeats t = 0 \<and> cooldown_seconds t = 0 \<longrightarrow> steps = []"
      by auto
    from p seg len e0 z show ?thesis by blast
  qed
  have b: "\<not> ?range \<Longrightarrow> build_payload t = Inl OverflowError"
    by (rule build_payload_raises)
  have c: "warmup_seconds t = 0 \<and> interval_seconds t = 0 \<and> recovery_seconds t = 0 \<and> repeats t = 0 \<and>
    cooldown_seconds t = 0 \<longrightarrow>
      (\<exists>p sp. build_payload t = Inr p \<and>
         workoutSegments p = [\<lparr>segmentOrder = 1, sportType = sp, workoutSteps = []\<rparr>])"
  proof
    assume z: "warmup_seconds t = 0 \<and> interval_seconds t = 0 \<and> recovery_seconds t = 0 \<and> repeats t = 0 \<and>
    cooldown_seconds t = 0"
    then have "?range" by simp
    from a [OF this] z show "\<exists>p sp. build_payload t = Inr p \<and>
         workoutSegments p = [\<lparr>segmentOrder = 1, sportType = sp, workoutSteps = []\<rparr>]"
      by auto
  qed
  from a b c show ?thesis by (simp split: if_splits)
qed

theorem build_payload_step_count_witness:
  "(300::int) < FLOAT_LIMIT \<and> (60::int) < FLOAT_LIMIT \<and> \<bar>60::int\<bar> < FLOAT_LIMIT \<and> (6::int) < FLOAT_LIMIT \<and>
   build_payload \<lparr>name = ''Tempo'', sport = ''running'', warmup_seconds = 300, interval_seconds = 60, recovery_seconds = 60, repeats = 6, cooldown_seconds = 300\<rparr> =
     Inr \<lparr>workoutName = ''Tempo'',
        sportType = [(''sportTypeId'', PInt 1), (''sportTypeKey'', PStr ''running''), (''displayOrder'', PInt 1)],
        estimatedDurationInSecs = 1320,
        workoutSegments =
          [\<lparr>segmentOrder = 1,
            sportType = [(''sportTypeId'', PInt 1), (''sportTypeKey'', PStr ''running''), (''displayOrder'', PInt 1)],
            workoutSteps =
             [ExecutableStepDTO 1
                [(''stepTypeId'', PInt 1), (''stepTypeKey'', PStr ''warmup''), (''displayOrder'', PInt 1)]
                TIME_CONDITION (Float 300) TARGET_NONE
                [(''strokeTypeId'', PInt 0), (''displayOrder'', PInt 0)]
                [(''equipmentTypeId'', PInt 0), (''displayOrder'', PInt 0)],
              RepeatGroupDTO 2
                [(''stepTypeId'', PInt 6), (''stepTypeKey'', PStr ''repeat''), (''displayOrder'', PInt 6)]
                6
                [ExecutableStepDTO 3
                [(''stepTypeId'', PInt 3), (''stepTypeKey'', PStr ''interval''), (''displayOrder'', PInt 3)]
                TIME_CONDITION (Float 60) TARGET_NONE
                [(''strokeTypeId'', PInt 0), (''displayOrder'', PInt 0)]
                [(''equipmentTypeId'', PInt 0), (''displayOrder'', PInt 0)],
                 ExecutableStepDTO 4
                [(''stepTypeId'', PInt 4), (''stepTypeKey'', PStr ''recovery''), (''displayOrder'', PInt 4)]
                TIME_CONDITION (Float 60) TARGET_NONE
                [(''strokeTypeId'', PInt 0), (''displayOrder'', PInt 0)]
                [(''equipmentTypeId'', PInt 0), (''displayOrder'', PInt 0)]]
                (Float 6) ITERATION_CONDITION False,
              ExecutableStepDTO 4
                [(''stepTypeId'', PInt 2), (''stepTypeKey'', PStr ''cooldown''), (''displayOrder'', PInt 2)]
                TIME_CONDITION (Float 300) TARGET_NONE
                [(''strokeTypeId'', PInt 0), (''displayOrder'', PInt 0)]
                [(''equipmentTypeId'', PInt 0), (''displayOrder'', PInt 0)]]\<rparr>]\<rparr> \<and>
   length (segment.workoutSteps (hd (workoutSegments \<lparr>workoutName = ''Tempo'',
        sportType = [(''sportTypeId'', PInt 1), (''sportTypeKey'', PStr ''running''), (''displayOrder'', PInt 1)],
        estimatedDurationInSecs = 1320,
        workoutSegments =
          [\<lparr>segmentOrder = 1,
            sportType = [(''sportTypeId'', PInt 1), (''sportTypeKey'', PStr ''running''), (''displayOrder'', PInt 1)],
            workoutSteps =
             [ExecutableStepDTO 1
                [(''stepTypeId'', PInt 1), (''stepTypeKey'', PStr ''warmup''), (''displayOrder'', PInt 1)]
                TIME_CONDITION (Float 300) TARGET_NONE
                [(''strokeTypeId'', PInt 0), (''displayOrder'', PInt 0)]
                [(''equipmentTypeId'', PInt 0), (''displayOrder'', PInt 0)],
              RepeatGroupDTO 2
                [(''stepTypeId'', PInt 6), (''stepTypeKey'', PStr ''repeat''), (''displayOrder'', PInt 6)]
                6
                [ExecutableStepDTO 3
                [(''stepTypeId'', PInt 3), (''stepTypeKey'', PStr ''interval''), (''displayOrder'', PInt 3)]
                TIME_CONDITION (Float 60) TARGET_NONE
                [(''strokeTypeId'', PInt 0), (''displayOrder'', PInt 0)]
                [(''equipmentTypeId'', PInt 0), (''displayOrder'', PInt 0)],
                 ExecutableStepDTO 4
                [(''stepTypeId'', PInt 4), (''stepTypeKey'', PStr ''recovery''), (''displayOrder'', PInt 4)]
                TIME_CONDITION (Float 60) TARGET_NONE
                [(''strokeTypeId'', PInt 0), (''displayOrder'', PInt 0)]
                [(''equipmentTypeId'', PInt 0), (''displayOrder'', PInt 0)]]
                (Float 6) ITERATION_CONDITION False,
              ExecutableStepDTO 4
                [(''stepTypeId'', PInt 2), (''stepTypeKey'', PStr ''cooldown''), (''displayOrder'', PInt 2)]
                TIME_CONDITION (Float 300) TARGET_NONE
                [(''strokeTypeId'', PInt 0), (''displayOrder'', PInt 0)]
                [(''equipmentTypeId'', PInt 0), (''displayOrder'', PInt 0)]]\<rparr>]\<rparr>))) = 3 \<and>
   build_payload \<lparr>name = ''Rest'', sport = ''running'', warmup_seconds = 0, interval_seconds = 0, recovery_seconds = 0, repeats = 0, cooldown_seconds = 0\<rparr> =
     Inr \<lparr>workoutName = ''Rest'', sportType = [(''sportTypeId'', PInt 1), (''sportTypeKey'', PStr ''running''), (''displayOrder'', PInt 1)], estimatedDurationInSecs = 0, workoutSegments = [\<lparr>segmentOrder = 1, sportType = [(''sportTypeId'', PInt 1), (''sportTypeKey'', PStr ''running''), (''displayOrder'', PInt 1)], workoutSteps = []\<rparr>]\<rparr> \<and>
   build_payload \<lparr>name = ''Easy'', sport = ''cycling'', warmup_seconds = 0, interval_seconds = 60, recovery_seconds = 60, repeats = 0, cooldown_seconds = 0\<rparr> =
     Inr \<lparr>workoutName = ''Easy'', sportType = [(''sportTypeId'', PInt 2), (''sportTypeKey'', PStr ''cycling''), (''displayOrder'', PInt 2)], estimatedDurationInSecs = 0, workoutSegments = [\<lparr>segmentOrder = 1, sportType = [(''sportTypeId'', PInt 2), (''sportTypeKey'', PStr ''cycling''), (''displayOrder'', PInt 2)], workoutSteps = []\<rparr>]\<rparr>"
  using build_payload_step_count [of "\<lparr>name = ''Tempo'', sport = ''running'', warmup_seconds = 300, interval_seconds = 60, recovery_seconds = 60, repeats = 6, cooldown_seconds = 300\<rparr>"]
        build_payload_step_count [of "\<lparr>name = ''Rest'', sport = ''running'', warmup_seconds = 0, interval_seconds = 0, recovery_seconds = 0, repeats = 0, cooldown_seconds = 0\<rparr>"]
        build_payload_step_count [of "\<lparr>name = ''Easy'', sport = ''cycling'', warmup_seconds = 0, interval_seconds = 60, recovery_seconds = 60, repeats = 0, cooldown_seconds = 0\<rparr>"]
        example_payload
  by (simp add: build_payload_def SPORT_TYPES_def estimated_duration_def Let_def
        small_float [of 300, simplified] small_float [of 60, simplified] small_float [of 6, simplified])

theorem build_payload_overflow:
  "build_payload \<lparr>name = ''Long'', sport = ''running'', warmup_seconds = 2 ^ 1024, interval_seconds = 0,
      recovery_seconds = 0, repeats = 0, cooldown_seconds = 0\<rparr> = Inl OverflowError"
  by (rule build_payload_raises) (simp add: FLOAT_LIMIT_def)

section \<open>Copying a library: claims\<close>

text \<open>
  C5. \<open>copy_library_to_watch\<close> does not abort on a failed copy. \<open>gio_copy\<close> runs with
  \<open>check=False\<close>; \<open>_gio_copy_with_log\<close> logs the failure and returns, and the loop goes on
  to the next file, as \<open>wipe_directory\<close> does with a failed removal. What ends the
  operation with an exception is a missing source directory (\<open>FileNotFoundError\<close>, before
  anything is done) and a conversion that fails (\<open>FFmpegError\<close>). In the model:

    \<^item> without the source directory the result is \<open>FileNotFoundError\<close> and the trace is empty;
    \<^item> when no file's conversion fails, no exception is raised and the copy commands of
      the trace are those of all the files, in order, whatever the copy results are;
    \<^item> when the conversion of the file at position \<open>k\<close> is the first to fail, the result
      is \<open>FFmpegError\<close> and the copy commands are those of the files before \<open>k\<close>;
    \<^item> two runs that differ only in the results of the copy commands raise the same
      exception, or none, and issue the same copy commands;
    \<^item> \<open>wipe_directory\<close> issues the remove command of every entry, whatever the results.
\<close>

theorem copy_library_failure_policy:
  "(\<not> src_exists \<longrightarrow>
      copy_library_to_watch g src_dir src_exists files music_dir ac log oc =
        ([], Some (FileNotFoundError (''Source directory '' @ src_dir @ '' does not exist'')))) \<and>
   (src_exists \<and> (\<forall>i<length files. \<not> conversion_fails ac (files ! i) (oc i)) \<longrightarrow>
      snd (copy_library_to_watch g src_dir src_exists files music_dir ac log oc) = None \<and>
      filter is_copy (fst (copy_library_to_watch g src_dir src_exists files music_dir ac log oc)) =
        map (\<lambda>i. expected_copy music_dir ac (files ! i) (oc i)) [0..<length files]) \<and>
   (src_exists \<and> k < length files \<and> conversion_fails ac (files ! k) (oc k) \<and>
    (\<forall>i<k. \<not> conversion_fails ac (files ! i) (oc i)) \<longrightarrow>
      (\<exists>msg. snd (copy_library_to_watch g src_dir src_exists files music_dir ac log oc) =
               Some (FFmpegError msg)) \<and>
      filter is_copy (fst (copy_library_to_watch g src_dir src_exists files music_dir ac log oc)) =
        map (\<lambda>i. expected_copy music_dir ac (files ! i) (oc i)) [0..<k]) \<and>
   ((\<forall>i. ffmpeg (oc' i) = ffmpeg (oc i)) \<longrightarrow>
      snd (copy_library_to_watch g src_dir src_exists files music_dir ac log oc') =
        snd (copy_library_to_watch g src_dir src_exists files music_dir ac log oc) \<and>
      filter is_copy (fst (copy_library_to_watch g src_dir src_exists files music_dir ac log oc')) =
        filter is_copy (fst (copy_library_to_watch g src_dir src_exists files music_dir ac log oc))) \<and>
   filter is_remove (wipe_directory p entries log results) =
     map (\<lambda>entry. GioRemove (joinpath p entry)) entries"
proof (intro conjI impI)
  assume "\<not> src_exists"
  then show "copy_library_to_watch g src_dir src_exists files music_dir ac log oc =
        ([], Some (FileNotFoundError (''Source directory '' @ src_dir @ '' does not exist'')))"
    by (simp add: copy_library_to_watch_def)
next
  assume h: "src_exists \<and> (\<forall>i<length files. \<not> conversion_fails ac (files ! i) (oc i))"
  then have "filter is_copy (fst (copy_files g files music_dir ac log oc)) =
     map (\<lambda>i. expected_copy music_dir ac (files ! i) (oc i)) [0..<length files] \<and>
     (if length files < length files
      then (\<exists>msg. snd (copy_files g files music_dir ac log oc) = Some (FFmpegError msg))
      else snd (copy_files g files music_dir ac log oc) = None)"
    by (intro copy_files_prefix) simp_all
  with h copy_library_copies [of src_exists g src_dir files music_dir ac log oc]
  show "snd (copy_library_to_watch g src_dir src_exists files music_dir ac log oc) = None"
    and "filter is_copy (fst (copy_library_to_watch g src_dir src_exists files music_dir ac log oc)) =
        map (\<lambda>i. expected_copy music_dir ac (files ! i) (oc i)) [0..<length files]"
    by simp_all
next
  assume h: "src_exists \<and> k < length files \<and> conversion_fails ac (files ! k) (oc k) \<and>
    (\<forall>i<k. \<not> conversion_fails ac (files ! i) (oc i))"
  then have "filter is_copy (fst (copy_files g files music_dir ac log oc)) =
     map (\<lambda>i. expected_copy music_dir ac (files ! i) (oc i)) [0..<k] \<and>
     (if k < length files
      then (\<exists>msg. snd (copy_files g files music_dir ac log oc) = Some (FFmpegError msg))
      else snd (copy_files g files music_dir ac log oc) = None)"
    by (intro copy_files_prefix) simp_all
  with h copy_library_copies [of src_exists g src_dir files music_dir ac log oc]
  show "\<exists>msg. snd (copy_library_to_watch g src_dir src_exists files music_dir ac log oc) =
               Some (FFmpegError msg)"
    and "filter is_copy (fst (copy_library_to_watch g src_dir src_exists files music_dir ac log oc)) =
        map (\<lambda>i. expected_copy music_dir ac (files ! i) (oc i)) [0..<k]"
    by simp_all
next
  assume h: "\<forall>i. ffmpeg (oc' i) = ffmpeg (oc i)"
  show "snd (copy_library_to_watch g src_dir src_exists files music_dir ac log oc') =
        snd (copy_library_to_watch g src_dir src_exists files music_dir ac log oc)"
    and "filter is_copy (fst (copy_library_to_watch g src_dir src_exists files music_dir ac log oc')) =
        filter is_copy (fst (copy_library_to_watch g src_dir src_exists files music_dir ac log oc))"
  proof -
    show "snd (copy_library_to_watch g src_dir src_exists files music_dir ac log oc') =
        snd (copy_library_to_watch g src_dir src_exists files music_dir ac log oc)"
    proof (cases src_exists)
      case True
      with copy_files_same [OF h, of g files music_dir ac log]
        copy_library_copies [of src_exists g src_dir files music_dir ac log oc]
        copy_library_copies [of src_exists g src_dir files music_dir ac log oc']
      show ?thesis by simp
    next
      case False
      then show ?thesis by (simp add: copy_library_to_watch_def)
    qed
    show "filter is_copy (fst (copy_library_to_watch g src_dir src_exists files music_dir ac log oc')) =
        filter is_copy (fst (copy_library_to_watch g src_dir src_exists files music_dir ac log oc))"
    proof (cases src_exists)
      case True
      with copy_files_same [OF h, of g files music_dir ac log]
        copy_library_copies [of src_exists g src_dir files music_dir ac log oc]
        copy_library_copies [of src_exists g src_dir files music_dir ac log oc']
      show ?thesis by simp
    next
      case False
      then show ?thesis by (simp add: copy_library_to_watch_def)
    qed
  qed
next
  show "filter is_remove (wipe_directory p entries log results) =
     map (\<lambda>entry. GioRemove (joinpath p entry)) entries"
    by (rule wipe_directory_removes)
qed

theorem copy_library_failure_policy_witness:
  "copy_library_to_watch ''/gvfs'' ''/src'' False [''/src/a.flac'', ''/src/b.mp3''] ''/gvfs/Music'' True True
      (\<lambda>i. \<lparr>ffmpeg = Ran ''/tmp/gpe_ffmpeg_1'' 0 '''', copy_result = \<lparr>stdout = '''', stderr = ''No space left on device'', returncode = 1\<rparr>\<rparr>) =
     ([], Some (FileNotFoundError ''Source directory /src does not exist'')) \<and>
   snd (copy_library_to_watch ''/gvfs'' ''/src'' True [''/src/a.flac'', ''/src/b.mp3''] ''/gvfs/Music'' True True
      (\<lambda>i. \<lparr>ffmpeg = Ran ''/tmp/gpe_ffmpeg_1'' 0 '''', copy_result = \<lparr>stdout = '''', stderr = ''No space left on device'', returncode = 1\<rparr>\<rparr>)) = None \<and>
   filter is_copy (fst (copy_library_to_watch ''/gvfs'' ''/src'' True [''/src/a.flac'', ''/src/b.mp3''] ''/gvfs/Music'' True True
      (\<lambda>i. \<lparr>ffmpeg = Ran ''/tmp/gpe_ffmpeg_1'' 0 '''', copy_result = \<lparr>stdout = '''', stderr = ''No space left on device'', returncode = 1\<rparr>\<rparr>))) =
     [GioCopy ''/tmp/gpe_ffmpeg_1/a.mp3'' ''/gvfs/Music/a.mp3'' False,
      GioCopy ''/src/b.mp3'' ''/gvfs/Music/b.mp3'' False] \<and>
   filter is_copy (fst (copy_library_to_watch ''/gvfs'' ''/src'' True [''/src/a.flac'', ''/src/b.mp3''] ''/gvfs/Music'' True True
      (\<lambda>i. \<lparr>ffmpeg = Ran ''/tmp/gpe_ffmpeg_1'' 0 '''', copy_result = \<lparr>stdout = '''', stderr = '''', returncode = 0\<rparr>\<rparr>))) =
     [GioCopy ''/tmp/gpe_ffmpeg_1/a.mp3'' ''/gvfs/Music/a.mp3'' False,
      GioCopy ''/src/b.mp3'' ''/gvfs/Music/b.mp3'' False] \<and>
   conversion_fails True ''/src/a.flac'' ((\<lambda>i. \<lparr>ffmpeg = Ran ''/tmp/gpe_ffmpeg_1'' 1 ''bad input'', copy_result = \<lparr>stdout = '''', stderr = '''', returncode = 0\<rparr>\<rparr>) 0) \<and>
   snd (copy_library_to_watch ''/gvfs'' ''/src'' True [''/src/a.flac'', ''/src/b.mp3''] ''/gvfs/Music'' True True
      (\<lambda>i. \<lparr>ffmpeg = Ran ''/tmp/gpe_ffmpeg_1'' 1 ''bad input'', copy_result = \<lparr>stdout = '''', stderr = '''', returncode = 0\<rparr>\<rparr>)) = Some (FFmpegError ''bad input'') \<and>
   filter is_copy (fst (copy_library_to_watch ''/gvfs'' ''/src'' True [''/src/a.flac'', ''/src/b.mp3''] ''/gvfs/Music'' True True
      (\<lambda>i. \<lparr>ffmpeg = Ran ''/tmp/gpe_ffmpeg_1'' 1 ''bad input'', copy_result = \<lparr>stdout = '''', stderr = '''', returncode = 0\<rparr>\<rparr>))) = [] \<and>
   filter is_remove (wipe_directory ''/gvfs/Music'' [''a.mp3'', ''b.mp3''] True (\<lambda>i. \<lparr>stdout = '''', stderr = ''busy'', returncode = 1\<rparr>)) =
     [GioRemove ''/gvfs/Music/a.mp3'', GioRemove ''/gvfs/Music/b.mp3'']"
proof -
  have none_fails: "\<forall>i<length [''/src/a.flac'', ''/src/b.mp3''].
      \<not> conversion_fails True ([''/src/a.flac'', ''/src/b.mp3''] ! i) ((\<lambda>i. \<lparr>ffmpeg = Ran ''/tmp/gpe_ffmpeg_1'' 0 '''', copy_result = \<lparr>stdout = '''', stderr = ''No space left on device'', returncode = 1\<rparr>\<rparr>) i)"
    by (simp add: conversion_fails_def less_Suc_eq nth_Cons' suffix_def path_name_def dot_index_def
          lower_def lower_char_def Let_def)
  have fails: "conversion_fails True ([''/src/a.flac'', ''/src/b.mp3''] ! 0) ((\<lambda>i. \<lparr>ffmpeg = Ran ''/tmp/gpe_ffmpeg_1'' 1 ''bad input'', copy_result = \<lparr>stdout = '''', stderr = '''', returncode = 0\<rparr>\<rparr>) 0)"
    by (simp add: conversion_fails_def suffix_def path_name_def dot_index_def
          lower_def lower_char_def Let_def)
  show ?thesis
    using none_fails fails
      copy_library_failure_policy [of False "''/gvfs''" "''/src''" "[''/src/a.flac'', ''/src/b.mp3'']" "''/gvfs/Music''" True True
        "(\<lambda>i. \<lparr>ffmpeg = Ran ''/tmp/gpe_ffmpeg_1'' 0 '''', copy_result = \<lparr>stdout = '''', stderr = ''No space left on device'', returncode = 1\<rparr>\<rparr>)" 0 "(\<lambda>i. \<lparr>ffmpeg = Ran ''/tmp/gpe_ffmpeg_1'' 0 '''', copy_result = \<lparr>stdout = '''', stderr = '''', returncode = 0\<rparr>\<rparr>)" "''/gvfs/Music''" "[''a.mp3'', ''b.mp3'']"
        "(\<lambda>i. \<lparr>stdout = '''', stderr = ''busy'', returncode = 1\<rparr>)"]
      copy_library_failure_policy [of True "''/gvfs''" "''/src''" "[''/src/a.flac'', ''/src/b.mp3'']" "''/gvfs/Music''" True True
        "(\<lambda>i. \<lparr>ffmpeg = Ran ''/tmp/gpe_ffmpeg_1'' 0 '''', copy_result = \<lparr>stdout = '''', stderr = ''No space left on device'', returncode = 1\<rparr>\<rparr>)" 0 "(\<lambda>i. \<lparr>ffmpeg = Ran ''/tmp/gpe_ffmpeg_1'' 0 '''', copy_result = \<lparr>stdout = '''', stderr = '''', returncode = 0\<rparr>\<rparr>)" "''/gvfs/Music''" "[''a.mp3'', ''b.mp3'']"
        "(\<lambda>i. \<lparr>stdout = '''', stderr = ''busy'', returncode = 1\<rparr>)"]
      copy_library_failure_policy [of True "''/gvfs''" "''/src''" "[''/src/a.flac'', ''/src/b.mp3'']" "''/gvfs/Music''" True True
        "(\<lambda>i. \<lparr>ffmpeg = Ran ''/tmp/gpe_ffmpeg_1'' 1 ''bad input'', copy_result = \<lparr>stdout = '''', stderr = '''', returncode = 0\<rparr>\<rparr>)" 0 "(\<lambda>i. \<lparr>ffmpeg = Ran ''/tmp/gpe_ffmpeg_1'' 1 ''bad input'', copy_result = \<lparr>stdout = '''', stderr = '''', returncode = 0\<rparr>\<rparr>)" "''/gvfs/Music''" "[''a.mp3'', ''b.mp3'']"
        "(\<lambda>i. \<lparr>stdout = '''', stderr = ''busy'', returncode = 1\<rparr>)"]
    by (simp add: copy_library_to_watch_def copy_local_file_to_watch_def convert_file_to_mp3_def
        gio_copy_with_log_def ensure_destination_parent_def ensure_directory_def log_line_def ok_def
        joinpath_def path_name_def path_parent_def suffix_def stem_def dot_index_def lower_def lower_char_def
        strip_def isspace_def conversion_fails_def expected_copy_def gio_remove_def Let_def)
qed

theorem copy_library_continues_after_failed_copy:
  "copy_library_to_watch ''/gvfs'' ''/src'' True [''/src/a.mp3'', ''/src/b.mp3''] ''/gvfs/Music'' False True
      (\<lambda>i. \<lparr>ffmpeg = NotInstalled, copy_result = \<lparr>stdout = '''', stderr = ''No space left on device'', returncode = 1\<rparr>\<rparr>) =
   ([Log ''Copying files from /src -> /gvfs/Music'',
     GioMakeDirectory ''/gvfs/Music'', GioMakeDirectory ''/gvfs/Music'',
     GioCopy ''/src/a.mp3'' ''/gvfs/Music/a.mp3'' False,
     Log ''Failed to copy /src/a.mp3 -> /gvfs/Music/a.mp3: No space left on device'',
     GioMakeDirectory ''/gvfs/Music'',
     GioCopy ''/src/b.mp3'' ''/gvfs/Music/b.mp3'' False,
     Log ''Failed to copy /src/b.mp3 -> /gvfs/Music/b.mp3: No space left on device''],
    None)"
  by (simp add: copy_library_to_watch_def copy_local_file_to_watch_def convert_file_to_mp3_def
        gio_copy_with_log_def ensure_destination_parent_def ensure_directory_def log_line_def ok_def
        joinpath_def path_name_def path_parent_def suffix_def stem_def dot_index_def lower_def lower_char_def
        strip_def isspace_def conversion_fails_def expected_copy_def gio_remove_def Let_def)

section \<open>File names: claims\<close>

text \<open>
  C4. \<open>sanitize_filename\<close> first strips the name: the white space at both ends is
  removed, not replaced. Every character of what is left that is not alphanumeric, \<open>-\<close> or
  \<open>_\<close> is replaced with \<open>_\<close>. The fallback \<open>workout\<close> is returned only when nothing is left,
  that is for a name that is empty or all white space; a name of invalid characters
  gives that many underscores. The result is never empty and holds only alphanumeric
  characters, \<open>-\<close> and \<open>_\<close>. \<open>sanitize_filename("Tempo Tuesday!")\<close> is \<open>"Tempo_Tuesday_"\<close>.
\<close>

theorem sanitize_filename_strips_then_replaces:
  "(\<exists>pre post. nm = pre @ strip nm @ post \<and> (\<forall>c\<in>set pre. isspace c) \<and> (\<forall>c\<in>set post. isspace c)) \<and>
   (strip nm \<noteq> [] \<longrightarrow> \<not> isspace (hd (strip nm)) \<and> \<not> isspace (last (strip nm))) \<and>
   (strip nm = [] \<longleftrightarrow> (\<forall>c\<in>set nm. isspace c)) \<and>
   (strip nm = [] \<longrightarrow> sanitize_filename nm = ''workout'') \<and>
   (strip nm \<noteq> [] \<longrightarrow>
      sanitize_filename nm =
        map (\<lambda>ch. if isalnum ch \<or> ch = CHR ''-'' \<or> ch = CHR ''_'' then ch else CHR ''_'') (strip nm)) \<and>
   (\<forall>c\<in>set (sanitize_filename nm). isalnum c \<or> c = CHR ''-'' \<or> c = CHR ''_'') \<and>
   sanitize_filename nm \<noteq> [] \<and>
   sanitize_filename ''Tempo Tuesday!'' = ''Tempo_Tuesday_''"
proof (intro conjI)
  show "\<exists>pre post. nm = pre @ strip nm @ post \<and> (\<forall>c\<in>set pre. isspace c) \<and> (\<forall>c\<in>set post. isspace c)"
  proof (intro exI conjI)
    show "nm = takeWhile isspace nm @ strip nm @ rev (takeWhile isspace (rev (dropWhile isspace nm)))"
      by (rule strip_decomp)
    show "\<forall>c\<in>set (takeWhile isspace nm). isspace c"
      by (auto dest: set_takeWhileD)
    show "\<forall>c\<in>set (rev (takeWhile isspace (rev (dropWhile isspace nm)))). isspace c"
      by (auto dest: set_takeWhileD)
  qed
  show "strip nm \<noteq> [] \<longrightarrow> \<not> isspace (hd (strip nm)) \<and> \<not> isspace (last (strip nm))"
    using strip_ends by blast
  show "strip nm = [] \<longleftrightarrow> (\<forall>c\<in>set nm. isspace c)"
    by (rule strip_Nil_iff)
  show "strip nm = [] \<longrightarrow> sanitize_filename nm = ''workout''"
    by (simp add: sanitize_filename_def)
  show "strip nm \<noteq> [] \<longrightarrow>
      sanitize_filename nm =
        map (\<lambda>ch. if isalnum ch \<or> ch = CHR ''-'' \<or> ch = CHR ''_'' then ch else CHR ''_'') (strip nm)"
    by (simp add: sanitize_filename_def)
  show "\<forall>c\<in>set (sanitize_filename nm). isalnum c \<or> c = CHR ''-'' \<or> c = CHR ''_''"
    by (rule sanitize_filename_chars)
  show "sanitize_filename nm \<noteq> []"
    by (simp add: sanitize_filename_def Let_def)
  show "sanitize_filename ''Tempo Tuesday!'' = ''Tempo_Tuesday_''"
    by (simp add: sanitize_filename_def strip_def isspace_def isalnum_def Let_def)
qed

theorem sanitize_filename_strips_then_replaces_witness:
  "strip ''  a?b  '' = ''a?b'' \<and>
   sanitize_filename ''  a?b  '' = ''a_b'' \<and>
   strip ''   '' = [] \<and>
   sanitize_filename ''   '' = ''workout'' \<and>
   sanitize_filename ''Tempo Tuesday!'' = ''Tempo_Tuesday_''"
  using sanitize_filename_strips_then_replaces [of "''  a?b  ''"]
        sanitize_filename_strips_then_replaces [of "''   ''"]
  by (simp add: sanitize_filename_def strip_def isspace_def isalnum_def Let_def)

theorem sanitize_filename_question_marks:
  "sanitize_filename ''???'' = ''___'' \<and> sanitize_filename ''???'' \<noteq> ''workout''"
  by (simp add: sanitize_filename_def strip_def isspace_def isalnum_def Let_def)

end
